theory Spec2Isabelle
  imports Complex_Main "HOL-Library.Word" "HOL-Library.Sublist"
begin

section \<open>Strings, errors and the generative service\<close>

text \<open>
  A JavaScript string is a sequence of 16-bit code units. String literals of the source
  are written through \<open>utf16\<close>, which is exact on the characters U+0000 to U+00FF.
\<close>

type_synonym code_unit = "16 word"
type_synonym jsstring = "code_unit list"

definition utf16 :: "string \<Rightarrow> jsstring" where
  "utf16 s = map (\<lambda>c. of_nat (of_char c)) s"

text \<open>
  The values that the source throws or lets through: \<open>new Error(msg)\<close>, the
  \<open>SyntaxError\<close> of \<open>JSON.parse\<close>, and what the SDK call rejects with
  (an \<open>ApiError\<close> carrying the HTTP status, or the \<open>TypeError\<close> of a failed fetch).
\<close>

datatype error =
    Error jsstring
  | SyntaxError
  | ApiError nat jsstring
  | TypeError jsstring

text \<open>
  \<open>inlineData: { mimeType, data }\<close>, and a content part, which carries inline data or
  text. \<open>part_text\<close> is the field \<open>text\<close> of a part and \<open>response_text\<close> the
  \<open>text\<close> of a response.
\<close>

record Blob =
  mimeType :: jsstring
  data :: jsstring

record Part =
  inlineData :: "Blob option"
  part_text :: "jsstring option"

text \<open>
  The response of \<open>ai.models.generateContent\<close>. Every level that the source reads
  through optional chaining (\<open>candidates?.[0]?.content?.parts\<close>) may be undefined.
\<close>

record Content =
  parts :: "Part list option"

record Candidate =
  content :: "Content option"

record GenerateContentResponse =
  candidates :: "Candidate list option"
  response_text :: "jsstring option"

text \<open>
  The \<open>Schema\<close> objects of the SDK as far as the source builds them: a type, an
  optional description, the item schema of an array, the properties and the required
  names of an object.
\<close>

datatype Schema =
    STRING "string option"
  | NUMBER "string option"
  | ARRAY Schema
  | OBJECT "(string \<times> Schema) list" "string list"

datatype ImageSize = Size_1K | Size_2K | Size_4K

record ImageConfig =
  aspectRatio :: jsstring
  imageSize :: ImageSize

text \<open>The \<open>config\<close> object of a request; a field that a call leaves out is \<open>None\<close>.\<close>

record GenerateContentConfig =
  responseMimeType :: "jsstring option"
  responseSchema :: "Schema option"
  temperature :: "rat option"
  imageConfig :: "ImageConfig option"

text \<open>The argument of \<open>ai.models.generateContent\<close>; \<open>contents\<close> is \<open>contents.parts\<close>.\<close>

record GenerateContentParameters =
  model :: jsstring
  contents :: "Part list"
  config :: GenerateContentConfig

text \<open>
  The environment of a call: \<open>process.env.API_KEY\<close>, the answer of the remote
  service to a request made with a key (\<open>Inl\<close> when the promise rejects), and the
  runtime's conversion of a number to a string, which a template literal applies.
  Numbers are modelled by their exact values, as rationals; the rounding of the runtime's
  doubles is not part of this model.
  The effects of a call are recorded in the \<open>world\<close>: the requests issued, in
  order, each with the key of the client that issued it, the \<open>console.error\<close> lines
  and the \<open>alert\<close> boxes.
\<close>

record env =
  API_KEY :: "jsstring option"
  generateContent ::
    "jsstring option \<Rightarrow> GenerateContentParameters \<Rightarrow> error + GenerateContentResponse"
  toString :: "rat \<Rightarrow> jsstring"

record world =
  requests :: "(jsstring option \<times> GenerateContentParameters) list"
  console :: "(jsstring \<times> error) list"
  alerts :: "jsstring list"

definition issue :: "env \<Rightarrow> GenerateContentParameters \<Rightarrow> world \<Rightarrow> world" where
  "issue e req w = w\<lparr>requests := requests w @ [(API_KEY e, req)]\<rparr>"

definition console_error :: "jsstring \<Rightarrow> error \<Rightarrow> world \<Rightarrow> world" where
  "console_error label err w = w\<lparr>console := console w @ [(label, err)]\<rparr>"

definition alert :: "jsstring \<Rightarrow> world \<Rightarrow> world" where
  "alert msg w = w\<lparr>alerts := alerts w @ [msg]\<rparr>"

definition nl :: jsstring where
  "nl = [0x0A]"

text \<open>
  \<open>new GoogleGenAI({ apiKey: process.env.API_KEY })\<close>. The constructor of the SDK's
  browser build throws when no key is given; otherwise the client holds the key. Each of
  the three service functions constructs its client first, outside its \<open>try\<close>, so
  this exception reaches the caller without a request and without a log line.
\<close>

definition GoogleGenAI :: "jsstring option \<Rightarrow> error + jsstring" where
  "GoogleGenAI apiKey =
     (case apiKey of
        None \<Rightarrow> Inl (Error (utf16 ''An API Key must be set when running in a browser''))
      | Some k \<Rightarrow> Inr k)"

section \<open>Asset generation: \<open>generateRenovationImage\<close>, \<open>generateBlueprintImage\<close>\<close>

text \<open>\<open>response.candidates?.[0]?.content?.parts || []\<close>\<close>

definition candidate_parts :: "GenerateContentResponse \<Rightarrow> Part list" where
  "candidate_parts response =
     (case candidates response of
        None \<Rightarrow> []
      | Some [] \<Rightarrow> []
      | Some (c # _) \<Rightarrow>
          (case content c of
             None \<Rightarrow> []
           | Some ct \<Rightarrow> (case parts ct of None \<Rightarrow> [] | Some ps \<Rightarrow> ps)))"

text \<open>
  The loop \<open>for (const part of ...) { if (part.inlineData) return `data:image/png;base64,${...}` }\<close>
  followed by \<open>throw new Error(msg)\<close>.
\<close>

fun first_inline_image :: "jsstring \<Rightarrow> Part list \<Rightarrow> error + jsstring" where
  "first_inline_image msg [] = Inl (Error msg)"
| "first_inline_image msg (part # rest) =
     (case inlineData part of
        Some blob \<Rightarrow> Inr (utf16 ''data:image/png;base64,'' @ data blob)
      | None \<Rightarrow> first_inline_image msg rest)"

text \<open>
  The construction of the client, the awaited call, the body of the \<open>try\<close> after
  it, and the \<open>catch\<close> that logs and rethrows. \<open>image_call\<close> is the part that
  both asset functions share: they differ in the prompt, the requested size and the two
  messages.
\<close>

definition image_request :: "jsstring \<Rightarrow> ImageSize \<Rightarrow> GenerateContentParameters" where
  "image_request fullPrompt size' =
     \<lparr>model = utf16 ''gemini-3-pro-image-preview'',
      contents = [\<lparr>inlineData = None, part_text = Some fullPrompt\<rparr>],
      config = \<lparr>responseMimeType = None, responseSchema = None, temperature = None,
                imageConfig = Some \<lparr>aspectRatio = utf16 ''16:9'', imageSize = size'\<rparr>\<rparr>\<rparr>"

definition image_call ::
  "env \<Rightarrow> GenerateContentParameters \<Rightarrow> jsstring \<Rightarrow> jsstring \<Rightarrow> world \<Rightarrow> (error + jsstring) \<times> world"
where
  "image_call e req msg label w =
     (case GoogleGenAI (API_KEY e) of
        Inl err \<Rightarrow> (Inl err, w)
      | Inr ai \<Rightarrow>
          (let w1 = issue e req w;
               r = (case generateContent e (Some ai) req of
                      Inl err \<Rightarrow> Inl err
                    | Inr response \<Rightarrow> first_inline_image msg (candidate_parts response))
           in case r of
                Inl err \<Rightarrow> (Inl err, console_error label err w1)
              | Inr url \<Rightarrow> (Inr url, w1)))"

definition renovation_fullPrompt :: "jsstring \<Rightarrow> jsstring \<Rightarrow> jsstring" where
  "renovation_fullPrompt prompt style =
     utf16 ''Photorealistic architectural visualization of a building renovation phase in Berlin. '' @ nl @
     utf16 ''  Style: '' @ style @ utf16 ''. '' @ nl @
     utf16 ''  Phase detail: '' @ prompt @ utf16 ''. '' @ nl @
     utf16 ''  Professional architectural photography, high detail, daylight, 8k resolution.''"

definition generateRenovationImage ::
  "env \<Rightarrow> jsstring \<Rightarrow> jsstring \<Rightarrow> ImageSize \<Rightarrow> world \<Rightarrow> (error + jsstring) \<times> world"
where
  "generateRenovationImage e prompt style size' w =
     image_call e (image_request (renovation_fullPrompt prompt style) size')
       (utf16 ''No image generated'') (utf16 ''Image Generation Failed:'') w"

definition blueprint_fullPrompt :: "jsstring \<Rightarrow> jsstring \<Rightarrow> jsstring \<Rightarrow> jsstring" where
  "blueprint_fullPrompt phaseName description style =
     utf16 ''Technical architectural blueprint drawing of a building renovation phase.'' @ nl @
     utf16 ''  Phase: '' @ phaseName @ utf16 ''.'' @ nl @
     utf16 ''  Description: '' @ description @ utf16 ''.'' @ nl @
     utf16 ''  Building Style: '' @ style @ utf16 ''.'' @ nl @
     utf16 ''  Visual Style: Classic blueprint, white technical lines on blue background, schematic, precise, high contrast, top-down or isometric view.''"

definition generateBlueprintImage ::
  "env \<Rightarrow> jsstring \<Rightarrow> jsstring \<Rightarrow> jsstring \<Rightarrow> world \<Rightarrow> (error + jsstring) \<times> world"
where
  "generateBlueprintImage e phaseName description style w =
     image_call e (image_request (blueprint_fullPrompt phaseName description style) Size_1K)
       (utf16 ''No blueprint generated'') (utf16 ''Blueprint Generation Failed:'') w"

text \<open>
  For the statements: the inline payloads of a list of parts, in order, and the parts of
  every candidate of a response (the source reads those of the first candidate only).
\<close>

definition inline_images :: "Part list \<Rightarrow> Blob list" where
  "inline_images ps = List.map_filter inlineData ps"



section \<open>\<open>JSON.parse\<close>\<close>

text \<open>
  The values of \<open>JSON.parse\<close>. An object keeps its members in creation order; a
  repeated name overwrites the earlier value in place, as property definition does.
\<close>

datatype json = JNull | JBool bool | JNum rat | JStr jsstring | JArr "json list" | JObj "(jsstring \<times> json) list"

definition is_ws :: "code_unit \<Rightarrow> bool" where
  "is_ws c \<longleftrightarrow> c = 0x20 \<or> c = 0x09 \<or> c = 0x0A \<or> c = 0x0D"

definition skip_ws :: "jsstring \<Rightarrow> jsstring" where
  "skip_ws = dropWhile is_ws"

definition is_digit :: "code_unit \<Rightarrow> bool" where
  "is_digit c \<longleftrightarrow> 0x30 \<le> c \<and> c \<le> 0x39"

definition digit_val :: "code_unit \<Rightarrow> int" where
  "digit_val c = uint c - 0x30"

definition hex_val :: "code_unit \<Rightarrow> nat option" where
  "hex_val c =
     (if 0x30 \<le> c \<and> c \<le> 0x39 then Some (unat c - 0x30)
      else if 0x41 \<le> c \<and> c \<le> 0x46 then Some (unat c - 0x41 + 10)
      else if 0x61 \<le> c \<and> c \<le> 0x66 then Some (unat c - 0x61 + 10)
      else None)"

definition hex4 :: "code_unit \<Rightarrow> code_unit \<Rightarrow> code_unit \<Rightarrow> code_unit \<Rightarrow> code_unit option" where
  "hex4 a b c d =
     (case (hex_val a, hex_val b, hex_val c, hex_val d) of
        (Some h1, Some h2, Some h3, Some h4) \<Rightarrow> Some (of_nat (((h1 * 16 + h2) * 16 + h3) * 16 + h4))
      | _ \<Rightarrow> None)"

definition escape :: "code_unit \<Rightarrow> code_unit option" where
  "escape c =
     (if c = 0x22 then Some 0x22
      else if c = 0x5C then Some 0x5C
      else if c = 0x2F then Some 0x2F
      else if c = 0x62 then Some 0x08
      else if c = 0x66 then Some 0x0C
      else if c = 0x6E then Some 0x0A
      else if c = 0x72 then Some 0x0D
      else if c = 0x74 then Some 0x09
      else None)"

fun string_body :: "jsstring \<Rightarrow> (jsstring \<times> jsstring) option" where
  "string_body [] = None"
| "string_body (c # cs) =
     (if c = 0x22 then Some ([], cs)
      else if c = 0x5C then
        (case cs of
           [] \<Rightarrow> None
         | e # es \<Rightarrow>
             if e = 0x75 then
               (case es of
                  h1 # h2 # h3 # h4 # rest \<Rightarrow>
                    (case hex4 h1 h2 h3 h4 of
                       None \<Rightarrow> None
                     | Some u \<Rightarrow> map_option (\<lambda>(s, r). (u # s, r)) (string_body rest))
                | _ \<Rightarrow> None)
             else
               (case escape e of
                  None \<Rightarrow> None
                | Some u \<Rightarrow> map_option (\<lambda>(s, r). (u # s, r)) (string_body es)))
      else if c < 0x20 then None
      else map_option (\<lambda>(s, r). (c # s, r)) (string_body cs))"

definition digits_val :: "jsstring \<Rightarrow> int" where
  "digits_val ds = foldl (\<lambda>n d. 10 * n + digit_val d) 0 ds"

text \<open>
  A number literal: an optional minus sign, \<open>0\<close> or a digit sequence without leading
  zero, an optional fraction, an optional exponent. Its value is the exact decimal value.
\<close>

definition take_digits :: "jsstring \<Rightarrow> jsstring \<times> jsstring" where
  "take_digits cs = (takeWhile is_digit cs, dropWhile is_digit cs)"

definition parse_int_part :: "jsstring \<Rightarrow> (jsstring \<times> jsstring) option" where
  "parse_int_part cs =
     (case cs of
        [] \<Rightarrow> None
      | c # r \<Rightarrow>
          if c = 0x30 then Some ([c], r)
          else if is_digit c then Some (take_digits cs)
          else None)"

definition parse_frac_part :: "jsstring \<Rightarrow> (jsstring \<times> jsstring) option" where
  "parse_frac_part cs =
     (case cs of
        [] \<Rightarrow> Some ([], cs)
      | c # r \<Rightarrow>
          if c = 0x2E then
            (case take_digits r of (ds, r') \<Rightarrow> if ds = [] then None else Some (ds, r'))
          else Some ([], cs))"

definition parse_sign :: "jsstring \<Rightarrow> bool \<times> jsstring" where
  "parse_sign cs =
     (case cs of
        [] \<Rightarrow> (False, cs)
      | c # r \<Rightarrow> if c = 0x2D then (True, r) else if c = 0x2B then (False, r) else (False, cs))"

definition parse_exp_part :: "jsstring \<Rightarrow> (int \<times> jsstring) option" where
  "parse_exp_part cs =
     (case cs of
        [] \<Rightarrow> Some (0, cs)
      | c # r \<Rightarrow>
          if c = 0x65 \<or> c = 0x45 then
            (case parse_sign r of
               (neg, r1) \<Rightarrow>
                 (case take_digits r1 of
                    (ds, r2) \<Rightarrow>
                      if ds = [] then None
                      else Some (if neg then - digits_val ds else digits_val ds, r2)))
          else Some (0, cs))"

definition scale :: "int \<Rightarrow> int \<Rightarrow> rat" where
  "scale m e = (if 0 \<le> e then of_int m * 10 ^ nat e else of_int m / 10 ^ nat (- e))"

definition parse_number :: "jsstring \<Rightarrow> (rat \<times> jsstring) option" where
  "parse_number cs =
     (case (case cs of [] \<Rightarrow> (False, cs) | c # r \<Rightarrow> if c = 0x2D then (True, r) else (False, cs)) of
        (neg, cs1) \<Rightarrow>
          (case parse_int_part cs1 of
             None \<Rightarrow> None
           | Some (ip, cs2) \<Rightarrow>
               (case parse_frac_part cs2 of
                  None \<Rightarrow> None
                | Some (fp, cs3) \<Rightarrow>
                    (case parse_exp_part cs3 of
                       None \<Rightarrow> None
                     | Some (ex, cs4) \<Rightarrow>
                         let v = scale (digits_val (ip @ fp)) (ex - int (length fp))
                         in Some (if neg then - v else v, cs4)))))"

fun set_member :: "jsstring \<Rightarrow> json \<Rightarrow> (jsstring \<times> json) list \<Rightarrow> (jsstring \<times> json) list" where
  "set_member k v [] = [(k, v)]"
| "set_member k v ((k', v') # ms) = (if k' = k then (k, v) # ms else (k', v') # set_member k v ms)"

definition object_of :: "(jsstring \<times> json) list \<Rightarrow> json" where
  "object_of ms = JObj (foldl (\<lambda>obj (k, v). set_member k v obj) [] ms)"

fun literal :: "jsstring \<Rightarrow> jsstring \<Rightarrow> jsstring option" where
  "literal [] cs = Some cs"
| "literal (x # xs) [] = None"
| "literal (x # xs) (c # cs) = (if x = c then literal xs cs else None)"

fun parse_value :: "nat \<Rightarrow> jsstring \<Rightarrow> (json \<times> jsstring) option"
and parse_elements :: "nat \<Rightarrow> jsstring \<Rightarrow> (json list \<times> jsstring) option"
and parse_members :: "nat \<Rightarrow> jsstring \<Rightarrow> ((jsstring \<times> json) list \<times> jsstring) option"
where
  "parse_value 0 cs = None"
| "parse_value (Suc n) cs =
     (case skip_ws cs of
        [] \<Rightarrow> None
      | c # r \<Rightarrow>
          if c = 0x7B then
            (case skip_ws r of
               [] \<Rightarrow> None
             | c' # r' \<Rightarrow>
                 if c' = 0x7D then Some (JObj [], r')
                 else map_option (\<lambda>(ms, r''). (object_of ms, r'')) (parse_members n (c' # r')))
          else if c = 0x5B then
            (case skip_ws r of
               [] \<Rightarrow> None
             | c' # r' \<Rightarrow>
                 if c' = 0x5D then Some (JArr [], r')
                 else map_option (\<lambda>(vs, r''). (JArr vs, r'')) (parse_elements n (c' # r')))
          else if c = 0x22 then map_option (\<lambda>(s, r'). (JStr s, r')) (string_body r)
          else if c = 0x74 then map_option (\<lambda>r'. (JBool True, r')) (literal (utf16 ''rue'') r)
          else if c = 0x66 then map_option (\<lambda>r'. (JBool False, r')) (literal (utf16 ''alse'') r)
          else if c = 0x6E then map_option (\<lambda>r'. (JNull, r')) (literal (utf16 ''ull'') r)
          else map_option (\<lambda>(x, r'). (JNum x, r')) (parse_number (c # r)))"
| "parse_elements 0 cs = None"
| "parse_elements (Suc n) cs =
     (case parse_value n cs of
        None \<Rightarrow> None
      | Some (v, r) \<Rightarrow>
          (case skip_ws r of
             [] \<Rightarrow> None
           | c # r' \<Rightarrow>
               if c = 0x2C then map_option (\<lambda>(vs, r''). (v # vs, r'')) (parse_elements n r')
               else if c = 0x5D then Some ([v], r')
               else None))"
| "parse_members 0 cs = None"
| "parse_members (Suc n) cs =
     (case skip_ws cs of
        [] \<Rightarrow> None
      | q # r \<Rightarrow>
          if q = 0x22 then
            (case string_body r of
               None \<Rightarrow> None
             | Some (k, r1) \<Rightarrow>
                 (case skip_ws r1 of
                    [] \<Rightarrow> None
                  | c1 # r2 \<Rightarrow>
                      if c1 = 0x3A then
                        (case parse_value n r2 of
                           None \<Rightarrow> None
                         | Some (v, r3) \<Rightarrow>
                             (case skip_ws r3 of
                                [] \<Rightarrow> None
                              | c3 # r4 \<Rightarrow>
                                  if c3 = 0x2C then map_option (\<lambda>(ms, r5). ((k, v) # ms, r5)) (parse_members n r4)
                                  else if c3 = 0x7D then Some ([(k, v)], r4)
                                  else None))
                      else None))
          else None)"

text \<open>
  \<open>JSON.parse(text)\<close>: one value between optional white space, anything else is a
  \<open>SyntaxError\<close>. The parser is a recursive descent on the JSON grammar; its first
  argument bounds the number of nested calls, and twice the length of the text is
  enough for every text (\<open>parse_value_fuel\<close> below).
\<close>

definition JSON_parse :: "jsstring \<Rightarrow> error + json" where
  "JSON_parse text =
     (case parse_value (2 * length text + 2) text of
        None \<Rightarrow> Inl SyntaxError
      | Some (v, r) \<Rightarrow> if skip_ws r = [] then Inr v else Inl SyntaxError)"

text \<open>The member of a parsed object under a name, undefined (\<open>None\<close>) where absent.\<close>

definition member :: "json \<Rightarrow> jsstring \<Rightarrow> json option" where
  "member v k = (case v of JObj ms \<Rightarrow> map_of ms k | _ \<Rightarrow> None)"

section \<open>Plan generation: \<open>analyzeRenovation\<close>\<close>

record PropertyDetails =
  address :: jsstring
  sqm :: rat
  budget :: rat
  currentEfficiency :: jsstring

text \<open>An uploaded image; \<open>file_name\<close> stands for its \<open>File\<close> object.\<close>

record ImageAsset =
  asset_id :: jsstring
  file_name :: jsstring
  previewUrl :: jsstring
  base64 :: jsstring
  type :: jsstring

definition responseSchema_const :: Schema where
  "responseSchema_const =
     OBJECT
       [(''summary'', STRING (Some ''Executive summary of the renovation strategy.'')),
        (''buildingStyle'', STRING (Some ''Detected architectural style (e.g., Altbau, Plattenbau).'')),
        (''phases'', ARRAY (OBJECT
           [(''name'', STRING None),
            (''durationWeeks'', NUMBER None),
            (''costEstimate'', NUMBER None),
            (''description'', STRING None)]
           [''name'', ''durationWeeks'', ''costEstimate'', ''description''])),
        (''roiProjection'', ARRAY (OBJECT
           [(''year'', NUMBER None),
            (''value'', NUMBER (Some ''ROI Percentage''))]
           [''year'', ''value''])),
        (''co2Savings'', ARRAY (OBJECT
           [(''category'', STRING (Some ''Area of saving (e.g., Heating, Insulation)'')),
            (''savingTons'', NUMBER None),
            (''description'', STRING (Some ''Brief explanation of how this saving is achieved.''))]
           [''category'', ''savingTons'', ''description''])),
        (''funding'', ARRAY (OBJECT
           [(''name'', STRING None),
            (''amount'', STRING None),
            (''description'', STRING None)]
           [''name'', ''amount'', ''description''])),
        (''totalCost'', NUMBER None),
        (''totalDuration'', NUMBER (Some ''Total duration in weeks''))]
       [''summary'', ''phases'', ''roiProjection'', ''co2Savings'', ''funding'', ''totalCost'',
        ''totalDuration'', ''buildingStyle'']"

definition imageParts :: "ImageAsset list \<Rightarrow> Part list" where
  "imageParts images =
     map (\<lambda>img. \<lparr>inlineData = Some \<lparr>mimeType = type img, data = base64 img\<rparr>, part_text = None\<rparr>) images"

definition plan_prompt :: "env \<Rightarrow> PropertyDetails \<Rightarrow> jsstring" where
  "plan_prompt e details =
     nl @
     utf16 ''    Act as an expert renovation consultant for multifamily properties in Berlin, Germany.'' @ nl @
     utf16 ''    Analyze the provided images of the property and the following details:'' @ nl @
     utf16 ''    Address: '' @ address details @ nl @
     utf16 ''    Size: '' @ toString e (sqm details) @ utf16 '' sqm'' @ nl @
     utf16 ''    Budget: '' @ [0x20AC] @ toString e (budget details) @ nl @
     utf16 ''    Current Efficiency Class: '' @ currentEfficiency details @ nl @
     nl @
     utf16 ''    Generate a comprehensive renovation plan that focuses on energy efficiency, ROI, and modernization.'' @ nl @
     utf16 ''    Include specific German funding programs (KfW, BAFA) where applicable.'' @ nl @
     utf16 ''    Provide realistic timelines and cost estimates for Berlin market rates.'' @ nl @
     utf16 ''  ''"

definition plan_request :: "env \<Rightarrow> PropertyDetails \<Rightarrow> ImageAsset list \<Rightarrow> GenerateContentParameters" where
  "plan_request e details images =
     \<lparr>model = utf16 ''gemini-2.5-flash'',
      contents = imageParts images @ [\<lparr>inlineData = None, part_text = Some (plan_prompt e details)\<rparr>],
      config = \<lparr>responseMimeType = Some (utf16 ''application/json''),
                responseSchema = Some responseSchema_const,
                temperature = Some (4 / 10),
                imageConfig = None\<rparr>\<rparr>"

text \<open>
  The construction of the client (line 69, before the \<open>try\<close>), the awaited call,
  \<open>if (!text) throw new Error("No response from AI")\<close>,
  \<open>return JSON.parse(text) as RenovationPlan\<close> (the cast does nothing at run time),
  and the \<open>catch\<close> that logs and rethrows.
\<close>

definition analyzeRenovation ::
  "env \<Rightarrow> PropertyDetails \<Rightarrow> ImageAsset list \<Rightarrow> world \<Rightarrow> (error + json) \<times> world"
where
  "analyzeRenovation e details images w =
     (case GoogleGenAI (API_KEY e) of
        Inl err \<Rightarrow> (Inl err, w)
      | Inr ai \<Rightarrow>
          (let req = plan_request e details images;
               w1 = issue e req w;
               r = (case generateContent e (Some ai) req of
                      Inl err \<Rightarrow> Inl err
                    | Inr response \<Rightarrow>
                        (case response_text response of
                           None \<Rightarrow> Inl (Error (utf16 ''No response from AI''))
                         | Some text \<Rightarrow>
                             if text = [] then Inl (Error (utf16 ''No response from AI''))
                             else JSON_parse text))
           in case r of
                Inl err \<Rightarrow> (Inl err, console_error (utf16 ''Gemini Analysis Failed:'') err w1)
              | Inr plan \<Rightarrow> (Inr plan, w1)))"

text \<open>
  Validity of a value against a schema, for the statements (the source only sends the
  schema to the service and never checks a value against it): the type of each schema
  node, every required name present, and every present property valid against its own
  schema.
\<close>

fun conforms :: "Schema \<Rightarrow> json \<Rightarrow> bool" where
  "conforms (STRING _) v = (case v of JStr _ \<Rightarrow> True | _ \<Rightarrow> False)"
| "conforms (NUMBER _) v = (case v of JNum _ \<Rightarrow> True | _ \<Rightarrow> False)"
| "conforms (ARRAY s) v = (case v of JArr xs \<Rightarrow> list_all (conforms s) xs | _ \<Rightarrow> False)"
| "conforms (OBJECT props req) v =
     (case v of
        JObj ms \<Rightarrow>
          list_all (\<lambda>k. map_of ms (utf16 k) \<noteq> None) req \<and>
          list_all (\<lambda>(k, s). case map_of ms (utf16 k) of None \<Rightarrow> True | Some x \<Rightarrow> conforms s x) props
      | _ \<Rightarrow> False)"

section \<open>The plan as \<open>types.ts\<close> declares it\<close>

text \<open>
  The interfaces of \<open>types.ts\<close>. Field names that several interfaces share carry the
  name of their interface here.
\<close>

record RenovationPhase =
  phase_name :: jsstring
  durationWeeks :: rat
  costEstimate :: rat
  phase_description :: jsstring

record RoiMetric =
  year :: rat
  roi_value :: rat

record Co2Metric =
  category :: jsstring
  savingTons :: rat
  co2_description :: jsstring

record FundingBadge =
  funding_name :: jsstring
  amount :: jsstring
  funding_description :: jsstring

record RenovationPlan =
  summary :: jsstring
  buildingStyle :: jsstring
  phases :: "RenovationPhase list"
  roiProjection :: "RoiMetric list"
  co2Savings :: "Co2Metric list"
  funding :: "FundingBadge list"
  totalCost :: rat
  totalDuration :: rat

text \<open>
  A parsed value read at the type \<open>RenovationPlan\<close>: defined when every declared
  field is present with its declared type. The cast in \<open>analyzeRenovation\<close> assumes
  this reading without checking it.
\<close>

definition str_member :: "json \<Rightarrow> string \<Rightarrow> jsstring option" where
  "str_member v k = (case member v (utf16 k) of Some (JStr s) \<Rightarrow> Some s | _ \<Rightarrow> None)"

definition num_member :: "json \<Rightarrow> string \<Rightarrow> rat option" where
  "num_member v k = (case member v (utf16 k) of Some (JNum x) \<Rightarrow> Some x | _ \<Rightarrow> None)"

definition arr_member :: "(json \<Rightarrow> 'a option) \<Rightarrow> json \<Rightarrow> string \<Rightarrow> 'a list option" where
  "arr_member f v k = (case member v (utf16 k) of Some (JArr xs) \<Rightarrow> those (map f xs) | _ \<Rightarrow> None)"

definition as_RenovationPhase :: "json \<Rightarrow> RenovationPhase option" where
  "as_RenovationPhase v =
     Option.bind (str_member v ''name'') (\<lambda>n.
     Option.bind (num_member v ''durationWeeks'') (\<lambda>w.
     Option.bind (num_member v ''costEstimate'') (\<lambda>c.
     Option.bind (str_member v ''description'') (\<lambda>d.
     Some \<lparr>phase_name = n, durationWeeks = w, costEstimate = c, phase_description = d\<rparr>))))"

definition as_RoiMetric :: "json \<Rightarrow> RoiMetric option" where
  "as_RoiMetric v =
     Option.bind (num_member v ''year'') (\<lambda>y.
     Option.bind (num_member v ''value'') (\<lambda>x.
     Some \<lparr>year = y, roi_value = x\<rparr>))"

definition as_Co2Metric :: "json \<Rightarrow> Co2Metric option" where
  "as_Co2Metric v =
     Option.bind (str_member v ''category'') (\<lambda>c.
     Option.bind (num_member v ''savingTons'') (\<lambda>t.
     Option.bind (str_member v ''description'') (\<lambda>d.
     Some \<lparr>category = c, savingTons = t, co2_description = d\<rparr>)))"

definition as_FundingBadge :: "json \<Rightarrow> FundingBadge option" where
  "as_FundingBadge v =
     Option.bind (str_member v ''name'') (\<lambda>n.
     Option.bind (str_member v ''amount'') (\<lambda>a.
     Option.bind (str_member v ''description'') (\<lambda>d.
     Some \<lparr>funding_name = n, amount = a, funding_description = d\<rparr>)))"

definition as_RenovationPlan :: "json \<Rightarrow> RenovationPlan option" where
  "as_RenovationPlan v =
     Option.bind (str_member v ''summary'') (\<lambda>s.
     Option.bind (str_member v ''buildingStyle'') (\<lambda>b.
     Option.bind (arr_member as_RenovationPhase v ''phases'') (\<lambda>ph.
     Option.bind (arr_member as_RoiMetric v ''roiProjection'') (\<lambda>roi.
     Option.bind (arr_member as_Co2Metric v ''co2Savings'') (\<lambda>co2.
     Option.bind (arr_member as_FundingBadge v ''funding'') (\<lambda>fu.
     Option.bind (num_member v ''totalCost'') (\<lambda>tc.
     Option.bind (num_member v ''totalDuration'') (\<lambda>td.
     Some \<lparr>summary = s, buildingStyle = b, phases = ph, roiProjection = roi, co2Savings = co2,
           funding = fu, totalCost = tc, totalDuration = td\<rparr>))))))))"

text \<open>A typed plan agrees with a value when each of its fields is the member of that name.\<close>

definition phase_agrees :: "json \<Rightarrow> RenovationPhase \<Rightarrow> bool" where
  "phase_agrees v p \<longleftrightarrow>
     member v (utf16 ''name'') = Some (JStr (phase_name p)) \<and>
     member v (utf16 ''durationWeeks'') = Some (JNum (durationWeeks p)) \<and>
     member v (utf16 ''costEstimate'') = Some (JNum (costEstimate p)) \<and>
     member v (utf16 ''description'') = Some (JStr (phase_description p))"

definition roi_agrees :: "json \<Rightarrow> RoiMetric \<Rightarrow> bool" where
  "roi_agrees v p \<longleftrightarrow>
     member v (utf16 ''year'') = Some (JNum (year p)) \<and>
     member v (utf16 ''value'') = Some (JNum (roi_value p))"

definition co2_agrees :: "json \<Rightarrow> Co2Metric \<Rightarrow> bool" where
  "co2_agrees v p \<longleftrightarrow>
     member v (utf16 ''category'') = Some (JStr (category p)) \<and>
     member v (utf16 ''savingTons'') = Some (JNum (savingTons p)) \<and>
     member v (utf16 ''description'') = Some (JStr (co2_description p))"

definition funding_agrees :: "json \<Rightarrow> FundingBadge \<Rightarrow> bool" where
  "funding_agrees v p \<longleftrightarrow>
     member v (utf16 ''name'') = Some (JStr (funding_name p)) \<and>
     member v (utf16 ''amount'') = Some (JStr (amount p)) \<and>
     member v (utf16 ''description'') = Some (JStr (funding_description p))"

definition plan_agrees :: "json \<Rightarrow> RenovationPlan \<Rightarrow> bool" where
  "plan_agrees v p \<longleftrightarrow>
     member v (utf16 ''summary'') = Some (JStr (summary p)) \<and>
     member v (utf16 ''buildingStyle'') = Some (JStr (buildingStyle p)) \<and>
     (\<exists>xs. member v (utf16 ''phases'') = Some (JArr xs) \<and> list_all2 phase_agrees xs (phases p)) \<and>
     (\<exists>xs. member v (utf16 ''roiProjection'') = Some (JArr xs) \<and> list_all2 roi_agrees xs (roiProjection p)) \<and>
     (\<exists>xs. member v (utf16 ''co2Savings'') = Some (JArr xs) \<and> list_all2 co2_agrees xs (co2Savings p)) \<and>
     (\<exists>xs. member v (utf16 ''funding'') = Some (JArr xs) \<and> list_all2 funding_agrees xs (funding p)) \<and>
     member v (utf16 ''totalCost'') = Some (JNum (totalCost p)) \<and>
     member v (utf16 ''totalDuration'') = Some (JNum (totalDuration p))"

section \<open>The dashboard: \<open>checkApiKey\<close>, \<open>handleGenerateImage\<close>, \<open>handleGenerateBlueprint\<close>\<close>

text \<open>
  \<open>window.aistudio\<close>, when present. \<open>hasSelectedApiKey\<close> is \<open>None\<close> when the
  helper is missing, otherwise the outcome of the awaited call. \<open>openSelectKey\<close> is the
  outcome of the awaited call (\<open>Inl\<close> also stands for the exception of calling a missing
  helper: both land in the same \<open>catch\<close>).
\<close>

record AIStudio =
  hasSelectedApiKey :: "(error + bool) option"
  openSelectKey :: "error + unit"

definition checkApiKey :: "AIStudio option \<Rightarrow> world \<Rightarrow> (error + bool) \<times> world" where
  "checkApiKey aistudio w =
     (case aistudio of
        None \<Rightarrow> (Inr True, w)
      | Some a \<Rightarrow>
          (case hasSelectedApiKey a of
             None \<Rightarrow> (Inr True, w)
           | Some (Inl err) \<Rightarrow> (Inl err, w)
           | Some (Inr hasKey) \<Rightarrow>
               if \<not> hasKey then
                 (case openSelectKey a of
                    Inr _ \<Rightarrow> (Inr True, w)
                  | Inl err \<Rightarrow> (Inr False, console_error (utf16 ''Failed to select key'') err w))
               else (Inr True, w)))"

text \<open>
  The props and the state of the \<open>Dashboard\<close> component. The plan is held at the type
  that the props declare (the reading \<open>as_RenovationPlan\<close> of the parsed value). The four
  maps are the objects keyed by phase index; a key that was never written is absent.
\<close>

record Dashboard =
  plan_prop :: RenovationPlan
  details_prop :: PropertyDetails
  selected_imageSize :: ImageSize
  phaseImages :: "nat \<rightharpoonup> jsstring"
  generatingPhase :: "nat \<rightharpoonup> bool"
  blueprints :: "nat \<rightharpoonup> jsstring"
  generatingBlueprint :: "nat \<rightharpoonup> bool"
  animateCharts :: bool

text \<open>
  The state setters, called with an updater: \<open>setX(prev => ...)\<close> applies the updater
  to the current value of that one state variable.
\<close>

definition setPhaseImages :: "((nat \<rightharpoonup> jsstring) \<Rightarrow> (nat \<rightharpoonup> jsstring)) \<Rightarrow> Dashboard \<Rightarrow> Dashboard" where
  "setPhaseImages f d = d\<lparr>phaseImages := f (phaseImages d)\<rparr>"

definition setGeneratingPhase :: "((nat \<rightharpoonup> bool) \<Rightarrow> (nat \<rightharpoonup> bool)) \<Rightarrow> Dashboard \<Rightarrow> Dashboard" where
  "setGeneratingPhase f d = d\<lparr>generatingPhase := f (generatingPhase d)\<rparr>"

definition setBlueprints :: "((nat \<rightharpoonup> jsstring) \<Rightarrow> (nat \<rightharpoonup> jsstring)) \<Rightarrow> Dashboard \<Rightarrow> Dashboard" where
  "setBlueprints f d = d\<lparr>blueprints := f (blueprints d)\<rparr>"

definition setGeneratingBlueprint :: "((nat \<rightharpoonup> bool) \<Rightarrow> (nat \<rightharpoonup> bool)) \<Rightarrow> Dashboard \<Rightarrow> Dashboard" where
  "setGeneratingBlueprint f d = d\<lparr>generatingBlueprint := f (generatingBlueprint d)\<rparr>"

text \<open>
  What a handler does once its generation call has settled: the rest of the \<open>try\<close>
  or the \<open>catch\<close>, then the \<open>finally\<close>. It runs in a later turn of the event loop, on
  the state of that moment.
\<close>

definition handleGenerateImage_settled ::
  "nat \<Rightarrow> error + jsstring \<Rightarrow> Dashboard \<Rightarrow> world \<Rightarrow> Dashboard \<times> world"
where
  "handleGenerateImage_settled index outcome d w =
     (case outcome of
        Inr imageUrl \<Rightarrow>
          (setGeneratingPhase (\<lambda>prev. prev(index \<mapsto> False))
             (setPhaseImages (\<lambda>prev. prev(index \<mapsto> imageUrl)) d),
           w)
      | Inl err \<Rightarrow>
          (setGeneratingPhase (\<lambda>prev. prev(index \<mapsto> False)) d,
           alert (utf16 ''Could not generate image. Please ensure you have a valid paid API key selected.'')
             (console_error (utf16 ''Failed to generate image'') err w)))"

definition handleGenerateBlueprint_settled ::
  "nat \<Rightarrow> error + jsstring \<Rightarrow> Dashboard \<Rightarrow> world \<Rightarrow> Dashboard \<times> world"
where
  "handleGenerateBlueprint_settled index outcome d w =
     (case outcome of
        Inr imageUrl \<Rightarrow>
          (setGeneratingBlueprint (\<lambda>prev. prev(index \<mapsto> False))
             (setBlueprints (\<lambda>prev. prev(index \<mapsto> imageUrl)) d),
           w)
      | Inl err \<Rightarrow>
          (setGeneratingBlueprint (\<lambda>prev. prev(index \<mapsto> False)) d,
           alert (utf16 ''Could not generate blueprint.'')
             (console_error (utf16 ''Failed to generate blueprint'') err w)))"

text \<open>
  A handler run without anything else in between. It returns the outcome of its promise,
  the new component state and the new world; the plan and the size are those of the
  render in which the button was clicked.
\<close>

definition handleGenerateImage ::
  "AIStudio option \<Rightarrow> env \<Rightarrow> nat \<Rightarrow> jsstring \<Rightarrow> Dashboard \<Rightarrow> world
     \<Rightarrow> (error + unit) \<times> Dashboard \<times> world"
where
  "handleGenerateImage aistudio e index description d w =
     (case checkApiKey aistudio w of
        (Inl err, w0) \<Rightarrow> (Inl err, d, w0)
      | (Inr ok, w0) \<Rightarrow>
          if \<not> ok then (Inr (), d, w0)
          else
            let d1 = setGeneratingPhase (\<lambda>prev. prev(index \<mapsto> True)) d in
            (case generateRenovationImage e description (buildingStyle (plan_prop d))
                    (selected_imageSize d) w0 of
               (outcome, w1) \<Rightarrow>
                 (case handleGenerateImage_settled index outcome d1 w1 of
                    (d2, w2) \<Rightarrow> (Inr (), d2, w2))))"

definition handleGenerateBlueprint ::
  "AIStudio option \<Rightarrow> env \<Rightarrow> nat \<Rightarrow> jsstring \<Rightarrow> jsstring \<Rightarrow> Dashboard \<Rightarrow> world
     \<Rightarrow> (error + unit) \<times> Dashboard \<times> world"
where
  "handleGenerateBlueprint aistudio e index name description d w =
     (case checkApiKey aistudio w of
        (Inl err, w0) \<Rightarrow> (Inl err, d, w0)
      | (Inr ok, w0) \<Rightarrow>
          if \<not> ok then (Inr (), d, w0)
          else
            let d1 = setGeneratingBlueprint (\<lambda>prev. prev(index \<mapsto> True)) d in
            (case generateBlueprintImage e name description (buildingStyle (plan_prop d)) w0 of
               (outcome, w1) \<Rightarrow>
                 (case handleGenerateBlueprint_settled index outcome d1 w1 of
                    (d2, w2) \<Rightarrow> (Inr (), d2, w2))))"

text \<open>
  Calls for several phases may be in flight together. A turn of the event loop then runs
  the first half of one call (the key check has passed and the flag is set) or the
  second half of one call, on the state that the turns before it left.
\<close>

datatype turn =
    ImageStarted nat
  | ImageSettled nat "error + jsstring"
  | BlueprintStarted nat
  | BlueprintSettled nat "error + jsstring"

fun turn_phase :: "turn \<Rightarrow> nat" where
  "turn_phase (ImageStarted i) = i"
| "turn_phase (ImageSettled i _) = i"
| "turn_phase (BlueprintStarted i) = i"
| "turn_phase (BlueprintSettled i _) = i"

fun take_turn :: "turn \<Rightarrow> Dashboard \<times> world \<Rightarrow> Dashboard \<times> world" where
  "take_turn (ImageStarted i) (d, w) = (setGeneratingPhase (\<lambda>prev. prev(i \<mapsto> True)) d, w)"
| "take_turn (ImageSettled i outcome) (d, w) = handleGenerateImage_settled i outcome d w"
| "take_turn (BlueprintStarted i) (d, w) = (setGeneratingBlueprint (\<lambda>prev. prev(i \<mapsto> True)) d, w)"
| "take_turn (BlueprintSettled i outcome) (d, w) = handleGenerateBlueprint_settled i outcome d w"

definition take_turns :: "turn list \<Rightarrow> Dashboard \<times> world \<Rightarrow> Dashboard \<times> world" where
  "take_turns ts s = foldl (\<lambda>s t. take_turn t s) s ts"

section \<open>The application: \<open>App\<close>, \<open>handleAnalysis\<close>, \<open>handleReset\<close>\<close>

text \<open>The state variables of the \<open>App\<close> component and their initial values.\<close>

record App =
  step :: nat
  isLoading :: bool
  error :: "jsstring option"
  images :: "ImageAsset list"
  details :: PropertyDetails
  plan :: "json option"

definition initial_details :: PropertyDetails where
  "initial_details = \<lparr>address = [], sqm = 500, budget = 250000, currentEfficiency = utf16 ''E''\<rparr>"

definition initial_App :: App where
  "initial_App =
     \<lparr>step = 1, isLoading = False, error = None, images = [], details = initial_details, plan = None\<rparr>"

definition handleReset :: "App \<Rightarrow> App" where
  "handleReset s = s\<lparr>step := 1, images := [], plan := None, details := initial_details\<rparr>"

text \<open>
  \<open>handleAnalysis\<close> runs in two turns of the event loop: up to the \<open>await\<close>, and
  from the settled call on. \<open>handleAnalysis_begin\<close> returns whether the call was issued.
\<close>

definition handleAnalysis_begin :: "App \<Rightarrow> bool \<times> App" where
  "handleAnalysis_begin s =
     (if images s = [] then (False, s\<lparr>error := Some (utf16 ''Please upload at least one image.'')\<rparr>)
      else if address (details s) = [] then (False, s\<lparr>error := Some (utf16 ''Please enter an address.'')\<rparr>)
      else (True, s\<lparr>isLoading := True, error := None\<rparr>))"

definition handleAnalysis_settled :: "error + json \<Rightarrow> App \<Rightarrow> App" where
  "handleAnalysis_settled outcome s =
     (case outcome of
        Inr generatedPlan \<Rightarrow> s\<lparr>plan := Some generatedPlan, step := 3, isLoading := False\<rparr>
      | Inl err \<Rightarrow>
          s\<lparr>error := Some (utf16 ''Failed to generate plan. Please try again or check your API Key.''),
            isLoading := False\<rparr>)"

definition handleAnalysis :: "env \<Rightarrow> App \<Rightarrow> world \<Rightarrow> App \<times> world" where
  "handleAnalysis e s w =
     (case handleAnalysis_begin s of
        (False, s1) \<Rightarrow> (s1, w)
      | (True, s1) \<Rightarrow>
          (case analyzeRenovation e (details s) (images s) w of
             (outcome, w1) \<Rightarrow> (handleAnalysis_settled outcome s1, w1)))"

text \<open>
  The \<open>disabled\<close> attribute that \<open>Button\<close> renders:
  \<open>disabled={isLoading || props.disabled} {...props}\<close>. The spread comes last, so a
  \<open>disabled\<close> that the caller passes replaces the computed one.
\<close>

definition Button_disabled :: "bool \<Rightarrow> bool option \<Rightarrow> bool" where
  "Button_disabled loading disabled_prop =
     (case disabled_prop of Some b \<Rightarrow> b | None \<Rightarrow> loading)"

text \<open>Truthiness of a parsed value, as \<open>step === 3 && plan && ...\<close> tests it.\<close>

definition truthy :: "json \<Rightarrow> bool" where
  "truthy v =
     (case v of
        JNull \<Rightarrow> False
      | JBool b \<Rightarrow> b
      | JNum x \<Rightarrow> x \<noteq> 0
      | JStr s \<Rightarrow> s \<noteq> []
      | JArr _ \<Rightarrow> True
      | JObj _ \<Rightarrow> True)"

text \<open>
  What can happen to the application between two renders. The form and its button are
  rendered at step 1, the dashboard with its reset link when \<open>step === 3 && plan\<close>.
  A session is the component state with the number of \<open>analyzeRenovation\<close> calls that
  have not settled yet.
\<close>

datatype event =
    ChangeAddress jsstring
  | ChangeSqm rat
  | ChangeBudget rat
  | ChangeEfficiency jsstring
  | FileLoaded ImageAsset
  | RemoveImage jsstring
  | ClickGenerate
  | AnalysisSettled "error + json"
  | ClickReset

record session =
  app :: App
  in_flight :: nat

definition initial_session :: session where
  "initial_session = \<lparr>app = initial_App, in_flight = 0\<rparr>"

definition fire :: "event \<Rightarrow> session \<Rightarrow> session option" where
  "fire ev x =
     (let s = app x in
      case ev of
        ChangeAddress v \<Rightarrow>
          if step s = 1 then Some (x\<lparr>app := s\<lparr>details := (details s)\<lparr>address := v\<rparr>\<rparr>\<rparr>) else None
      | ChangeSqm v \<Rightarrow>
          if step s = 1 then Some (x\<lparr>app := s\<lparr>details := (details s)\<lparr>sqm := v\<rparr>\<rparr>\<rparr>) else None
      | ChangeBudget v \<Rightarrow>
          if step s = 1 then Some (x\<lparr>app := s\<lparr>details := (details s)\<lparr>budget := v\<rparr>\<rparr>\<rparr>) else None
      | ChangeEfficiency v \<Rightarrow>
          if step s = 1 then Some (x\<lparr>app := s\<lparr>details := (details s)\<lparr>currentEfficiency := v\<rparr>\<rparr>\<rparr>)
          else None
      | FileLoaded img \<Rightarrow> Some (x\<lparr>app := s\<lparr>images := images s @ [img]\<rparr>\<rparr>)
      | RemoveImage i \<Rightarrow>
          if step s = 1 then Some (x\<lparr>app := s\<lparr>images := filter (\<lambda>img. asset_id img \<noteq> i) (images s)\<rparr>\<rparr>)
          else None
      | ClickGenerate \<Rightarrow>
          if step s = 1 \<and>
             \<not> Button_disabled (isLoading s) (Some (address (details s) = [] \<or> images s = []))
          then (case handleAnalysis_begin s of
                  (issued, s1) \<Rightarrow>
                    Some \<lparr>app = s1, in_flight = (if issued then in_flight x + 1 else in_flight x)\<rparr>)
          else None
      | AnalysisSettled outcome \<Rightarrow>
          if 0 < in_flight x
          then Some \<lparr>app = handleAnalysis_settled outcome s, in_flight = in_flight x - 1\<rparr>
          else None
      | ClickReset \<Rightarrow>
          if step s = 3 \<and> (case plan s of None \<Rightarrow> False | Some v \<Rightarrow> truthy v)
          then Some (x\<lparr>app := handleReset s\<rparr>)
          else None)"

fun run :: "event list \<Rightarrow> session \<Rightarrow> session option" where
  "run [] x = Some x"
| "run (ev # evs) x = (case fire ev x of None \<Rightarrow> None | Some y \<Rightarrow> run evs y)"

text \<open>
  A run is serial when the button is only clicked while no call is in flight, which is
  what \<open>disabled={isLoading || props.disabled}\<close> alone would enforce.
\<close>

fun serial :: "event list \<Rightarrow> session \<Rightarrow> bool" where
  "serial [] x = True"
| "serial (ev # evs) x =
     ((case ev of ClickGenerate \<Rightarrow> in_flight x = 0 | _ \<Rightarrow> True) \<and>
      (case fire ev x of None \<Rightarrow> True | Some y \<Rightarrow> serial evs y))"

text \<open>
  The states of serial runs: at most one call in flight, loading exactly while it is, and
  no error message once the dashboard is shown.
\<close>

definition settled :: "session \<Rightarrow> bool" where
  "settled x \<longleftrightarrow>
     in_flight x \<le> 1 \<and>
     (in_flight x = 1 \<longrightarrow> isLoading (app x) \<and> error (app x) = None \<and> step (app x) = 1) \<and>
     (in_flight x = 0 \<longrightarrow> \<not> isLoading (app x)) \<and>
     (step (app x) = 3 \<longrightarrow> error (app x) = None \<and> in_flight x = 0)"

section \<open>Sample inputs\<close>

definition demo_image_response :: GenerateContentResponse where
  "demo_image_response =
     \<lparr>candidates = Some [\<lparr>content = Some \<lparr>parts = Some
        [\<lparr>inlineData = None, part_text = Some (utf16 ''Here is the image'')\<rparr>,
         \<lparr>inlineData = Some \<lparr>mimeType = utf16 ''image/jpeg'', data = utf16 ''QUJD''\<rparr>, part_text = None\<rparr>,
         \<lparr>inlineData = Some \<lparr>mimeType = utf16 ''image/png'', data = utf16 ''REVG''\<rparr>, part_text = None\<rparr>]\<rparr>\<rparr>],
      response_text = None\<rparr>"

definition demo_text_response :: GenerateContentResponse where
  "demo_text_response =
     \<lparr>candidates = Some [\<lparr>content = Some \<lparr>parts = Some
        [\<lparr>inlineData = None, part_text = Some (utf16 ''I cannot draw this'')\<rparr>]\<rparr>\<rparr>],
      response_text = Some (utf16 ''I cannot draw this'')\<rparr>"



text \<open>
  The inputs of the witnesses: responses of the image service with and without an inline
  image, with the image in a second candidate, and with an image part without data, the property and the image of the example scenario, a schema-conformant
  response text with the value it denotes, and a run of the application in which two
  analyses overlap.
\<close>

text \<open>The runtime's rendering of the two numbers of the sample details.\<close>

definition demo_toString :: "rat \<Rightarrow> jsstring" where
  "demo_toString x = (if x = 500 then utf16 ''500'' else if x = 250000 then utf16 ''250000'' else utf16 ''NaN'')"

definition demo_image_env :: env where
  "demo_image_env =
     \<lparr>API_KEY = Some (utf16 ''key''),
      generateContent = (\<lambda>k req.
        if map_option imageSize (imageConfig (config req)) = Some Size_1K
        then Inr demo_text_response else Inr demo_image_response),
      toString = demo_toString\<rparr>"


definition world0 :: world where
  "world0 = \<lparr>requests = [], console = [], alerts = []\<rparr>"

definition demo_details :: PropertyDetails where
  "demo_details =
     \<lparr>address = utf16 ''Torstra'' @ [0xDF] @ utf16 ''e 45, Berlin'',
      sqm = 500, budget = 250000, currentEfficiency = utf16 ''E''\<rparr>"

definition demo_image :: ImageAsset where
  "demo_image =
     \<lparr>asset_id = utf16 ''k3j9x0a1b'', file_name = utf16 ''front.jpg'',
      previewUrl = utf16 ''data:image/jpeg;base64,/9j/4AAQ'', base64 = utf16 ''/9j/4AAQ'',
      type = utf16 ''image/jpeg''\<rparr>"

definition demo_images :: "ImageAsset list" where
  "demo_images = [demo_image]"

definition demo_plan_text :: jsstring where
  \<open>demo_plan_text = utf16
     ''{"summary": "Insulate and heat.", "buildingStyle": "Altbau", "phases": [{"name": "Roof", "durationWeeks": 8, "costEstimate": 60000, "description": "Insulate"}, {"name": "Heating", "durationWeeks": 18, "costEstimate": 120000.5, "description": "Heat pump"}], "roiProjection": [{"year": 1, "value": 2.5}], "co2Savings": [{"category": "Heating", "savingTons": 12, "description": "Pump"}], "funding": [{"name": "KfW 261", "amount": "Max 150k", "description": "Loan"}], "totalCost": 180000, "totalDuration": 26}''\<close>

definition demo_plan_json :: json where
  "demo_plan_json =
     JObj
      [(utf16 ''summary'', JStr (utf16 ''Insulate and heat.'')),
       (utf16 ''buildingStyle'', JStr (utf16 ''Altbau'')),
       (utf16 ''phases'', JArr
          [JObj [(utf16 ''name'', JStr (utf16 ''Roof'')), (utf16 ''durationWeeks'', JNum 8),
                 (utf16 ''costEstimate'', JNum 60000), (utf16 ''description'', JStr (utf16 ''Insulate''))],
           JObj [(utf16 ''name'', JStr (utf16 ''Heating'')), (utf16 ''durationWeeks'', JNum 18),
                 (utf16 ''costEstimate'', JNum (240001 / 2)), (utf16 ''description'', JStr (utf16 ''Heat pump''))]]),
       (utf16 ''roiProjection'', JArr [JObj [(utf16 ''year'', JNum 1), (utf16 ''value'', JNum (5 / 2))]]),
       (utf16 ''co2Savings'', JArr
          [JObj [(utf16 ''category'', JStr (utf16 ''Heating'')), (utf16 ''savingTons'', JNum 12),
                 (utf16 ''description'', JStr (utf16 ''Pump''))]]),
       (utf16 ''funding'', JArr
          [JObj [(utf16 ''name'', JStr (utf16 ''KfW 261'')), (utf16 ''amount'', JStr (utf16 ''Max 150k'')),
                 (utf16 ''description'', JStr (utf16 ''Loan''))]]),
       (utf16 ''totalCost'', JNum 180000),
       (utf16 ''totalDuration'', JNum 26)]"

definition reply_env :: "jsstring option \<Rightarrow> env" where
  "reply_env t =
     \<lparr>API_KEY = Some (utf16 ''key''),
      generateContent = (\<lambda>k req. Inr \<lparr>candidates = None, response_text = t\<rparr>),
      toString = demo_toString\<rparr>"

definition failing_env :: "error \<Rightarrow> env" where
  "failing_env err =
     \<lparr>API_KEY = Some (utf16 ''key''), generateContent = (\<lambda>k req. Inl err), toString = demo_toString\<rparr>"

definition keyless_env :: env where
  "keyless_env =
     \<lparr>API_KEY = None,
      generateContent = (\<lambda>k req. Inr \<lparr>candidates = None, response_text = Some (utf16 ''{}'')\<rparr>),
      toString = demo_toString\<rparr>"

definition demo_plan :: RenovationPlan where
  "demo_plan =
     \<lparr>summary = utf16 ''Insulate and heat.'', buildingStyle = utf16 ''Altbau'',
      phases =
        [\<lparr>phase_name = utf16 ''Roof'', durationWeeks = 8, costEstimate = 60000,
          phase_description = utf16 ''Insulate''\<rparr>,
         \<lparr>phase_name = utf16 ''Heating'', durationWeeks = 18, costEstimate = 240001 / 2,
          phase_description = utf16 ''Heat pump''\<rparr>],
      roiProjection = [\<lparr>year = 1, roi_value = 5 / 2\<rparr>],
      co2Savings = [\<lparr>category = utf16 ''Heating'', savingTons = 12, co2_description = utf16 ''Pump''\<rparr>],
      funding = [\<lparr>funding_name = utf16 ''KfW 261'', amount = utf16 ''Max 150k'',
                  funding_description = utf16 ''Loan''\<rparr>],
      totalCost = 180000, totalDuration = 26\<rparr>"

definition demo_dashboard :: Dashboard where
  "demo_dashboard =
     \<lparr>plan_prop = demo_plan, details_prop = demo_details, selected_imageSize = Size_2K,
      phaseImages = Map.empty,
      generatingPhase = Map.empty,
      blueprints = [1 \<mapsto> utf16 ''data:image/png;base64,QkxVRQ==''],
      generatingBlueprint = [1 \<mapsto> True],
      animateCharts = True\<rparr>"

definition demo_turns :: "turn list" where
  "demo_turns =
     [ImageStarted 0,
      BlueprintStarted 0,
      ImageSettled 0 (Inl (ApiError 429 (utf16 ''quota''))),
      BlueprintSettled 0 (Inr (utf16 ''data:image/png;base64,QUJD''))]"

definition overlapping_analyses :: "event list" where
  "overlapping_analyses =
     [ChangeAddress (utf16 ''Torstr. 45, Berlin''),
      FileLoaded demo_image,
      ClickGenerate,
      ClickGenerate,
      AnalysisSettled (Inr demo_plan_json),
      AnalysisSettled (Inl (ApiError 429 (utf16 ''quota''))),
      ClickReset]"

section \<open>Properties of \<open>JSON.parse\<close>\<close>

text \<open>
  Every successful call of the parser consumes input, so a depth bound of twice the
  length of the text plus one is never the reason for a failure: the result is the same
  for every larger bound, and \<open>JSON_parse\<close> accepts exactly the texts that the grammar
  derives.
\<close>

lemma skip_ws_length: "length (skip_ws cs) \<le> length cs"
  by (simp add: skip_ws_def length_dropWhile_le)

lemma skip_ws_Cons_length: "skip_ws cs = c # r \<Longrightarrow> length r < length cs"
  using skip_ws_length [of cs] by simp

lemma string_body_length: "string_body cs = Some (s, r) \<Longrightarrow> length r < length cs"
proof (induction cs arbitrary: s r rule: length_induct)
  case (1 cs)
  have IH: "length r' < length ys" if "length ys < length cs" "string_body ys = Some (s', r')" for ys s' r'
    using 1(1) that by blast
  from 1(2) obtain c cs' where cs: "cs = c # cs'" by (cases cs) auto
  consider (quote) "c = 0x22" | (uni) a b c' d rest e where "c \<noteq> 0x22" "c = 0x5C" "cs' = e # a # b # c' # d # rest" "e = 0x75"
    | (esc) e es where "c \<noteq> 0x22" "c = 0x5C" "cs' = e # es" "e \<noteq> 0x75"
    | (plain) "c \<noteq> 0x22" "c \<noteq> 0x5C" "\<not> c < 0x20"
    using 1(2) cs by (auto split: if_splits list.splits)
  then show ?case
  proof cases
    case quote
    with 1(2) cs show ?thesis by simp
  next
    case uni
    with 1(2) cs obtain s' where "string_body rest = Some (s', r)"
      by (auto split: option.splits)
    from IH [OF _ this] cs uni show ?thesis by simp
  next
    case esc
    with 1(2) cs obtain s' where "string_body es = Some (s', r)"
      by (auto split: option.splits)
    from IH [OF _ this] cs esc show ?thesis by simp
  next
    case plain
    with 1(2) cs obtain s' where "string_body cs' = Some (s', r)"
      by auto
    from IH [OF _ this] cs show ?thesis by simp
  qed
qed

lemma literal_length: "literal xs cs = Some r \<Longrightarrow> length r \<le> length cs"
  by (induction xs cs rule: literal.induct) (auto split: if_splits)

lemma take_digits_length: "take_digits cs = (ds, r) \<Longrightarrow> length r \<le> length cs"
  by (auto simp: take_digits_def length_dropWhile_le)

lemma parse_int_part_length: "parse_int_part cs = Some (ds, r) \<Longrightarrow> length r < length cs"
  by (cases cs) (auto simp: parse_int_part_def take_digits_def split: if_splits intro: le_imp_less_Suc length_dropWhile_le)

lemma parse_frac_part_length: "parse_frac_part cs = Some (ds, r) \<Longrightarrow> length r \<le> length cs"
  by (cases cs) (auto simp: parse_frac_part_def take_digits_def split: if_splits intro: le_SucI length_dropWhile_le)

lemma parse_sign_length: "parse_sign cs = (b, r) \<Longrightarrow> length r \<le> length cs"
  by (cases cs) (auto simp: parse_sign_def split: if_splits)

lemma parse_exp_part_length: "parse_exp_part cs = Some (x, r) \<Longrightarrow> length r \<le> length cs"
proof (cases cs)
  case Nil
  then show "parse_exp_part cs = Some (x, r) \<Longrightarrow> length r \<le> length cs"
    by (simp add: parse_exp_part_def)
next
  case (Cons c cs')
  assume a: "parse_exp_part cs = Some (x, r)"
  show "length r \<le> length cs"
  proof (cases "c = 0x65 \<or> c = 0x45")
    case False
    with a Cons show ?thesis by (auto simp: parse_exp_part_def)
  next
    case True
    obtain neg r1 where s: "parse_sign cs' = (neg, r1)" by (cases "parse_sign cs'") auto
    obtain ds r2 where d: "take_digits r1 = (ds, r2)" by (cases "take_digits r1") auto
    from a Cons True s d have "r = r2"
      by (auto simp: parse_exp_part_def split: if_splits)
    with parse_sign_length [OF s] take_digits_length [OF d] Cons show ?thesis by simp
  qed
qed

lemma parse_number_length: "parse_number cs = Some (x, r) \<Longrightarrow> length r < length cs"
proof -
  assume a: "parse_number cs = Some (x, r)"
  obtain neg cs1 where n: "(case cs of [] \<Rightarrow> (False, cs) | c # r \<Rightarrow> if c = 0x2D then (True, r) else (False, cs)) = (neg, cs1)"
    by (cases "(case cs of [] \<Rightarrow> (False, cs) | c # r \<Rightarrow> if c = 0x2D then (True, r) else (False, cs))") auto
  then have l1: "length cs1 \<le> length cs"
    by (cases cs) (auto split: if_splits)
  from a n obtain ip cs2 where i: "parse_int_part cs1 = Some (ip, cs2)"
    by (auto simp: parse_number_def split: option.splits)
  from a n i obtain fp cs3 where f: "parse_frac_part cs2 = Some (fp, cs3)"
    by (auto simp: parse_number_def split: option.splits)
  from a n i f obtain ex where e: "parse_exp_part cs3 = Some (ex, r)"
    by (auto simp: parse_number_def Let_def split: option.splits)
  from l1 parse_int_part_length [OF i] parse_frac_part_length [OF f] parse_exp_part_length [OF e]
  show ?thesis by simp
qed

lemma parse_length_aux:
  "(\<forall>cs v r. parse_value n cs = Some (v, r) \<longrightarrow> length r < length cs)
 \<and> (\<forall>cs vs r. parse_elements n cs = Some (vs, r) \<longrightarrow> length r < length cs)
 \<and> (\<forall>cs ms r. parse_members n cs = Some (ms, r) \<longrightarrow> length r < length cs)"
proof (induction n)
  case 0
  show ?case by simp
next
  case (Suc n)
  then have IHv: "\<And>cs v r. parse_value n cs = Some (v, r) \<Longrightarrow> length r < length cs"
    and IHe: "\<And>cs vs r. parse_elements n cs = Some (vs, r) \<Longrightarrow> length r < length cs"
    and IHm: "\<And>cs ms r. parse_members n cs = Some (ms, r) \<Longrightarrow> length r < length cs"
    by blast+
  have v: "length r < length cs" if a: "parse_value (Suc n) cs = Some (v, r)" for cs v r
  proof -
    from a obtain c t where sk: "skip_ws cs = c # t"
      by (cases "skip_ws cs") auto
    have lt: "length t < length cs" by (rule skip_ws_Cons_length [OF sk])
    consider (obj) "c = 0x7B" | (arr) "c \<noteq> 0x7B" "c = 0x5B" | (str) "c \<noteq> 0x7B" "c \<noteq> 0x5B" "c = 0x22"
      | (tr) "c \<noteq> 0x7B" "c \<noteq> 0x5B" "c \<noteq> 0x22" "c = 0x74"
      | (fa) "c \<noteq> 0x7B" "c \<noteq> 0x5B" "c \<noteq> 0x22" "c \<noteq> 0x74" "c = 0x66"
      | (nu) "c \<noteq> 0x7B" "c \<noteq> 0x5B" "c \<noteq> 0x22" "c \<noteq> 0x74" "c \<noteq> 0x66" "c = 0x6E"
      | (num) "c \<noteq> 0x7B" "c \<noteq> 0x5B" "c \<noteq> 0x22" "c \<noteq> 0x74" "c \<noteq> 0x66" "c \<noteq> 0x6E"
      by blast
    then show ?thesis
    proof cases
      case obj
      from a sk obj obtain c' t' where sk2: "skip_ws t = c' # t'"
        by (cases "skip_ws t") auto
      have lt2: "length t' < length t" by (rule skip_ws_Cons_length [OF sk2])
      show ?thesis
      proof (cases "c' = 0x7D")
        case True
        with a sk obj sk2 lt lt2 show ?thesis by auto
      next
        case False
        with a sk obj sk2 obtain ms where "parse_members n (c' # t') = Some (ms, r)"
          by auto
        from IHm [OF this] lt lt2 show ?thesis by simp
      qed
    next
      case arr
      from a sk arr obtain c' t' where sk2: "skip_ws t = c' # t'"
        by (cases "skip_ws t") auto
      have lt2: "length t' < length t" by (rule skip_ws_Cons_length [OF sk2])
      show ?thesis
      proof (cases "c' = 0x5D")
        case True
        with a sk arr sk2 lt lt2 show ?thesis by auto
      next
        case False
        with a sk arr sk2 obtain vs where "parse_elements n (c' # t') = Some (vs, r)"
          by auto
        from IHe [OF this] lt lt2 show ?thesis by simp
      qed
    next
      case str
      with a sk obtain s where "string_body t = Some (s, r)" by auto
      from string_body_length [OF this] lt show ?thesis by simp
    next
      case tr
      with a sk have "literal (utf16 ''rue'') t = Some r" by auto
      from literal_length [OF this] lt show ?thesis by simp
    next
      case fa
      with a sk have "literal (utf16 ''alse'') t = Some r" by auto
      from literal_length [OF this] lt show ?thesis by simp
    next
      case nu
      with a sk have "literal (utf16 ''ull'') t = Some r" by auto
      from literal_length [OF this] lt show ?thesis by simp
    next
      case num
      with a sk obtain x where "parse_number (c # t) = Some (x, r)" by auto
      from parse_number_length [OF this] lt show ?thesis by simp
    qed
  qed
  have e: "length r < length cs" if a: "parse_elements (Suc n) cs = Some (vs, r)" for cs vs r
  proof -
    from a obtain v t where pv: "parse_value n cs = Some (v, t)"
      by (auto split: option.splits)
    from a pv obtain c t' where sk: "skip_ws t = c # t'"
      by (cases "skip_ws t") auto
    note l1 = IHv [OF pv] and l2 = skip_ws_Cons_length [OF sk]
    show ?thesis
    proof (cases "c = 0x2C")
      case True
      with a pv sk obtain vs' where "parse_elements n t' = Some (vs', r)" by auto
      from IHe [OF this] l1 l2 show ?thesis by simp
    next
      case False
      with a pv sk have "r = t'" by (auto split: if_splits)
      with l1 l2 show ?thesis by simp
    qed
  qed
  have m: "length r < length cs" if a: "parse_members (Suc n) cs = Some (ms, r)" for cs ms r
  proof -
    from a obtain q t where sk: "skip_ws cs = q # t"
      by (cases "skip_ws cs") auto
    from a sk have q: "q = 0x22" by (auto split: if_splits)
    from a sk q obtain k t1 where sb: "string_body t = Some (k, t1)"
      by (auto split: option.splits)
    from a sk q sb obtain c1 t2 where sk1: "skip_ws t1 = c1 # t2"
      by (cases "skip_ws t1") auto
    from a sk q sb sk1 have c1: "c1 = 0x3A" by (auto split: if_splits)
    from a sk q sb sk1 c1 obtain v t3 where pv: "parse_value n t2 = Some (v, t3)"
      by (auto split: option.splits)
    from a sk q sb sk1 c1 pv obtain c3 t4 where sk3: "skip_ws t3 = c3 # t4"
      by (cases "skip_ws t3") auto
    note l = skip_ws_Cons_length [OF sk] string_body_length [OF sb] skip_ws_Cons_length [OF sk1]
      IHv [OF pv] skip_ws_Cons_length [OF sk3]
    show ?thesis
    proof (cases "c3 = 0x2C")
      case True
      with a sk q sb sk1 c1 pv sk3 obtain ms' where "parse_members n t4 = Some (ms', r)" by auto
      from IHm [OF this] l show ?thesis by simp
    next
      case False
      with a sk q sb sk1 c1 pv sk3 have "r = t4" by (auto split: if_splits)
      with l show ?thesis by simp
    qed
  qed
  from v e m show ?case by blast
qed

lemma parse_value_length: "parse_value n cs = Some (v, r) \<Longrightarrow> length r < length cs"
  using parse_length_aux [of n] by blast

lemma parse_fuel_aux:
  "(\<forall>cs n res. 2 * length cs + 1 \<le> n \<longrightarrow> parse_value m cs = Some res \<longrightarrow> parse_value n cs = Some res)
 \<and> (\<forall>cs n res. 2 * length cs + 2 \<le> n \<longrightarrow> parse_elements m cs = Some res \<longrightarrow> parse_elements n cs = Some res)
 \<and> (\<forall>cs n res. 2 * length cs + 2 \<le> n \<longrightarrow> parse_members m cs = Some res \<longrightarrow> parse_members n cs = Some res)"
proof (induction m)
  case 0
  show ?case by simp
next
  case (Suc m)
  then have IHv: "\<And>cs n res. 2 * length cs + 1 \<le> n \<Longrightarrow> parse_value m cs = Some res \<Longrightarrow> parse_value n cs = Some res"
    and IHe: "\<And>cs n res. 2 * length cs + 2 \<le> n \<Longrightarrow> parse_elements m cs = Some res \<Longrightarrow> parse_elements n cs = Some res"
    and IHm: "\<And>cs n res. 2 * length cs + 2 \<le> n \<Longrightarrow> parse_members m cs = Some res \<Longrightarrow> parse_members n cs = Some res"
    by blast+
  have v: "parse_value n cs = Some res"
    if b: "2 * length cs + 1 \<le> n" and a: "parse_value (Suc m) cs = Some res" for cs n res
  proof -
    from b obtain n' where n: "n = Suc n'" and b': "2 * length cs \<le> n'"
      by (cases n) auto
    from a obtain c t where sk: "skip_ws cs = c # t"
      by (cases "skip_ws cs") auto
    have lt: "length t < length cs" by (rule skip_ws_Cons_length [OF sk])
    show ?thesis
    proof (cases "c = 0x7B \<or> c = 0x5B")
      case False
      with a sk show ?thesis unfolding n by simp
    next
      case True
      with a sk obtain c' t' where sk2: "skip_ws t = c' # t'"
        by (cases "skip_ws t") (auto split: if_splits)
      have lt2: "length t' < length t" by (rule skip_ws_Cons_length [OF sk2])
      have bm: "2 * length (c' # t') + 2 \<le> n'" using lt lt2 b' by simp
      show ?thesis
      proof (cases "c = 0x7B")
        case obj: True
        show ?thesis
        proof (cases "c' = 0x7D")
          case True
          with a sk obj sk2 show ?thesis unfolding n by simp
        next
          case False
          with a sk obj sk2 obtain ms r where pm: "parse_members m (c' # t') = Some (ms, r)"
            by auto
          from IHm [OF bm pm] pm a sk obj sk2 False show ?thesis unfolding n by simp
        qed
      next
        case nobj: False
        with True have arr: "c = 0x5B" by simp
        show ?thesis
        proof (cases "c' = 0x5D")
          case True
          with a sk nobj arr sk2 show ?thesis unfolding n by simp
        next
          case False
          with a sk nobj arr sk2 obtain vs r where pe: "parse_elements m (c' # t') = Some (vs, r)"
            by auto
          from IHe [OF bm pe] pe a sk nobj arr sk2 False show ?thesis unfolding n by simp
        qed
      qed
    qed
  qed
  have e: "parse_elements n cs = Some res"
    if b: "2 * length cs + 2 \<le> n" and a: "parse_elements (Suc m) cs = Some res" for cs n res
  proof -
    from b obtain n' where n: "n = Suc n'" and b': "2 * length cs + 1 \<le> n'"
      by (cases n) auto
    from a obtain v t where pv: "parse_value m cs = Some (v, t)"
      by (auto split: option.splits)
    note pv' = IHv [OF b' pv]
    from a pv obtain c t' where sk: "skip_ws t = c # t'"
      by (cases "skip_ws t") auto
    note l1 = parse_value_length [OF pv] and l2 = skip_ws_Cons_length [OF sk]
    show ?thesis
    proof (cases "c = 0x2C")
      case True
      with a pv sk obtain vs' r where pe: "parse_elements m t' = Some (vs', r)" by auto
      have "2 * length t' + 2 \<le> n'" using l1 l2 b' by simp
      from IHe [OF this pe] pe a pv pv' sk True show ?thesis unfolding n by simp
    next
      case False
      with a pv pv' sk show ?thesis unfolding n by simp
    qed
  qed
  have mm: "parse_members n cs = Some res"
    if b: "2 * length cs + 2 \<le> n" and a: "parse_members (Suc m) cs = Some res" for cs n res
  proof -
    from b obtain n' where n: "n = Suc n'" and b': "2 * length cs + 1 \<le> n'"
      by (cases n) auto
    from a obtain q t where sk: "skip_ws cs = q # t"
      by (cases "skip_ws cs") auto
    from a sk have q: "q = 0x22" by (auto split: if_splits)
    from a sk q obtain k t1 where sb: "string_body t = Some (k, t1)"
      by (auto split: option.splits)
    from a sk q sb obtain c1 t2 where sk1: "skip_ws t1 = c1 # t2"
      by (cases "skip_ws t1") auto
    from a sk q sb sk1 have c1: "c1 = 0x3A" by (auto split: if_splits)
    from a sk q sb sk1 c1 obtain v t3 where pv: "parse_value m t2 = Some (v, t3)"
      by (auto split: option.splits)
    note l = skip_ws_Cons_length [OF sk] string_body_length [OF sb] skip_ws_Cons_length [OF sk1]
    have "2 * length t2 + 1 \<le> n'" using l b' by simp
    note pv' = IHv [OF this pv]
    from a sk q sb sk1 c1 pv obtain c3 t4 where sk3: "skip_ws t3 = c3 # t4"
      by (cases "skip_ws t3") auto
    note l' = parse_value_length [OF pv] skip_ws_Cons_length [OF sk3]
    show ?thesis
    proof (cases "c3 = 0x2C")
      case True
      with a sk q sb sk1 c1 pv sk3 obtain ms' r where pm: "parse_members m t4 = Some (ms', r)" by auto
      have "2 * length t4 + 2 \<le> n'" using l l' b' by simp
      from IHm [OF this pm] pm a sk q sb sk1 c1 pv pv' sk3 True show ?thesis unfolding n by simp
    next
      case False
      with a sk q sb sk1 c1 pv pv' sk3 show ?thesis unfolding n by simp
    qed
  qed
  from v e mm show ?case by blast
qed

lemma parse_value_enough:
  "2 * length cs + 1 \<le> n \<Longrightarrow> parse_value m cs = Some res \<Longrightarrow> parse_value n cs = Some res"
  using parse_fuel_aux [of m] by blast

lemma parse_value_fuel:
  assumes "2 * length cs + 1 \<le> n" and "2 * length cs + 1 \<le> m"
  shows "parse_value n cs = parse_value m cs"
proof (cases "parse_value m cs")
  case (Some res)
  from parse_value_enough [OF assms(1) Some] Some show ?thesis by (simp only:)
next
  case None
  show ?thesis
  proof (cases "parse_value n cs")
    case None
    with \<open>parse_value m cs = None\<close> show ?thesis by (simp only:)
  next
    case (Some res)
    from parse_value_enough [OF assms(2) Some] None show ?thesis by (simp only: option.distinct)
  qed
qed

lemma JSON_parse_iff:
  "JSON_parse t = Inr v \<longleftrightarrow> (\<exists>n r. parse_value n t = Some (v, r) \<and> skip_ws r = [])"
proof
  assume a: "JSON_parse t = Inr v"
  show "\<exists>n r. parse_value n t = Some (v, r) \<and> skip_ws r = []"
  proof (cases "parse_value (2 * length t + 2) t")
    case None
    with a show ?thesis by (simp only: JSON_parse_def option.case sum.distinct)
  next
    case (Some res)
    obtain v' r where res: "res = (v', r)" by (cases res)
    from a Some res have "skip_ws r = [] \<and> v' = v"
      by (simp only: JSON_parse_def option.case prod.case sum.inject sum.distinct split: if_splits)
    with Some res show ?thesis by blast
  qed
next
  assume "\<exists>n r. parse_value n t = Some (v, r) \<and> skip_ws r = []"
  then obtain n r where p: "parse_value n t = Some (v, r)" and r: "skip_ws r = []" by blast
  have "2 * length t + 1 \<le> 2 * length t + 2" by simp
  from parse_value_enough [OF this p] r show "JSON_parse t = Inr v"
    by (simp only: JSON_parse_def option.case prod.case refl if_True)
qed

lemma parse_value_Nil: "parse_value n [] = None"
  by (cases n) (simp_all add: skip_ws_def)

section \<open>Properties of the typed reading\<close>

lemma str_memberI:
  assumes "map_of ms (utf16 k) \<noteq> None"
      and "case map_of ms (utf16 k) of None \<Rightarrow> True | Some x \<Rightarrow> conforms (STRING d) x"
  shows "\<exists>s. str_member (JObj ms) k = Some s \<and> member (JObj ms) (utf16 k) = Some (JStr s)"
  using assms by (auto simp: str_member_def member_def split: option.splits json.splits)

lemma num_memberI:
  assumes "map_of ms (utf16 k) \<noteq> None"
      and "case map_of ms (utf16 k) of None \<Rightarrow> True | Some x \<Rightarrow> conforms (NUMBER d) x"
  shows "\<exists>s. num_member (JObj ms) k = Some s \<and> member (JObj ms) (utf16 k) = Some (JNum s)"
  using assms by (auto simp: num_member_def member_def split: option.splits json.splits)

lemma those_map_all2:
  "list_all (\<lambda>x. \<exists>y. f x = Some y \<and> R x y) xs \<Longrightarrow> \<exists>ys. those (map f xs) = Some ys \<and> list_all2 R xs ys"
  by (induction xs) auto

lemma arr_memberI:
  assumes "map_of ms (utf16 k) \<noteq> None"
      and "case map_of ms (utf16 k) of None \<Rightarrow> True | Some x \<Rightarrow> conforms (ARRAY S) x"
      and "\<And>x. conforms S x \<Longrightarrow> \<exists>y. f x = Some y \<and> R x y"
  shows "\<exists>xs ys. arr_member f (JObj ms) k = Some ys \<and> member (JObj ms) (utf16 k) = Some (JArr xs)
            \<and> list_all2 R xs ys"
proof -
  from assms(1,2) obtain xs where m: "map_of ms (utf16 k) = Some (JArr xs)" and c: "list_all (conforms S) xs"
    by (auto split: option.splits json.splits)
  from c assms(3) have "list_all (\<lambda>x. \<exists>y. f x = Some y \<and> R x y) xs"
    by (simp add: list_all_iff)
  from those_map_all2 [OF this] m show ?thesis
    by (auto simp: arr_member_def member_def)
qed

lemma conforms_OBJECT_E:
  assumes "conforms (OBJECT props req) v"
  obtains ms where "v = JObj ms"
    and "list_all (\<lambda>k. map_of ms (utf16 k) \<noteq> None) req"
    and "list_all (\<lambda>(k, s). case map_of ms (utf16 k) of None \<Rightarrow> True | Some x \<Rightarrow> conforms s x) props"
  using assms by (cases v) auto

lemma conforms_phase:
  assumes "conforms (OBJECT
           [(''name'', STRING None),
            (''durationWeeks'', NUMBER None),
            (''costEstimate'', NUMBER None),
            (''description'', STRING None)]
           [''name'', ''durationWeeks'', ''costEstimate'', ''description'']) v"
  shows "\<exists>p. as_RenovationPhase v = Some p \<and> phase_agrees v p"
proof -
  from assms obtain ms where v: "v = JObj ms"
    and r: "list_all (\<lambda>k. map_of ms (utf16 k) \<noteq> None) [''name'', ''durationWeeks'', ''costEstimate'', ''description'']"
    and p: "list_all (\<lambda>(k, s). case map_of ms (utf16 k) of None \<Rightarrow> True | Some x \<Rightarrow> conforms s x)
           [(''name'', STRING None),
            (''durationWeeks'', NUMBER None),
            (''costEstimate'', NUMBER None),
            (''description'', STRING None)]"
    by (rule conforms_OBJECT_E)
  from r p obtain a where a: "str_member (JObj ms) ''name'' = Some a" "member (JObj ms) (utf16 ''name'') = Some (JStr a)"
    using str_memberI [of ms "''name''" None] by auto
  from r p obtain b where b: "num_member (JObj ms) ''durationWeeks'' = Some b" "member (JObj ms) (utf16 ''durationWeeks'') = Some (JNum b)"
    using num_memberI [of ms "''durationWeeks''" None] by auto
  from r p obtain c where c: "num_member (JObj ms) ''costEstimate'' = Some c" "member (JObj ms) (utf16 ''costEstimate'') = Some (JNum c)"
    using num_memberI [of ms "''costEstimate''" None] by auto
  from r p obtain d where d: "str_member (JObj ms) ''description'' = Some d" "member (JObj ms) (utf16 ''description'') = Some (JStr d)"
    using str_memberI [of ms "''description''" None] by auto
  from a b c d show ?thesis
    unfolding v by (simp add: as_RenovationPhase_def phase_agrees_def)
qed

lemma conforms_roi:
  assumes "conforms (OBJECT
           [(''year'', NUMBER None),
            (''value'', NUMBER (Some ''ROI Percentage''))]
           [''year'', ''value'']) v"
  shows "\<exists>p. as_RoiMetric v = Some p \<and> roi_agrees v p"
proof -
  from assms obtain ms where v: "v = JObj ms"
    and r: "list_all (\<lambda>k. map_of ms (utf16 k) \<noteq> None) [''year'', ''value'']"
    and p: "list_all (\<lambda>(k, s). case map_of ms (utf16 k) of None \<Rightarrow> True | Some x \<Rightarrow> conforms s x)
           [(''year'', NUMBER None),
            (''value'', NUMBER (Some ''ROI Percentage''))]"
    by (rule conforms_OBJECT_E)
  from r p obtain a where a: "num_member (JObj ms) ''year'' = Some a" "member (JObj ms) (utf16 ''year'') = Some (JNum a)"
    using num_memberI [of ms "''year''" "None"] by auto
  from r p obtain b where b: "num_member (JObj ms) ''value'' = Some b" "member (JObj ms) (utf16 ''value'') = Some (JNum b)"
    using num_memberI [of ms "''value''" "Some ''ROI Percentage''"] by auto
  from a b show ?thesis
    unfolding v by (simp add: as_RoiMetric_def roi_agrees_def)
qed

lemma conforms_co2:
  assumes "conforms (OBJECT
           [(''category'', STRING (Some ''Area of saving (e.g., Heating, Insulation)'')),
            (''savingTons'', NUMBER None),
            (''description'', STRING (Some ''Brief explanation of how this saving is achieved.''))]
           [''category'', ''savingTons'', ''description'']) v"
  shows "\<exists>p. as_Co2Metric v = Some p \<and> co2_agrees v p"
proof -
  from assms obtain ms where v: "v = JObj ms"
    and r: "list_all (\<lambda>k. map_of ms (utf16 k) \<noteq> None) [''category'', ''savingTons'', ''description'']"
    and p: "list_all (\<lambda>(k, s). case map_of ms (utf16 k) of None \<Rightarrow> True | Some x \<Rightarrow> conforms s x)
           [(''category'', STRING (Some ''Area of saving (e.g., Heating, Insulation)'')),
            (''savingTons'', NUMBER None),
            (''description'', STRING (Some ''Brief explanation of how this saving is achieved.''))]"
    by (rule conforms_OBJECT_E)
  from r p obtain a where a: "str_member (JObj ms) ''category'' = Some a" "member (JObj ms) (utf16 ''category'') = Some (JStr a)"
    using str_memberI [of ms "''category''" "Some ''Area of saving (e.g., Heating, Insulation)''"] by auto
  from r p obtain b where b: "num_member (JObj ms) ''savingTons'' = Some b" "member (JObj ms) (utf16 ''savingTons'') = Some (JNum b)"
    using num_memberI [of ms "''savingTons''" "None"] by auto
  from r p obtain c where c: "str_member (JObj ms) ''description'' = Some c" "member (JObj ms) (utf16 ''description'') = Some (JStr c)"
    using str_memberI [of ms "''description''" "Some ''Brief explanation of how this saving is achieved.''"] by auto
  from a b c show ?thesis
    unfolding v by (simp add: as_Co2Metric_def co2_agrees_def)
qed

lemma conforms_funding:
  assumes "conforms (OBJECT
           [(''name'', STRING None),
            (''amount'', STRING None),
            (''description'', STRING None)]
           [''name'', ''amount'', ''description'']) v"
  shows "\<exists>p. as_FundingBadge v = Some p \<and> funding_agrees v p"
proof -
  from assms obtain ms where v: "v = JObj ms"
    and r: "list_all (\<lambda>k. map_of ms (utf16 k) \<noteq> None) [''name'', ''amount'', ''description'']"
    and p: "list_all (\<lambda>(k, s). case map_of ms (utf16 k) of None \<Rightarrow> True | Some x \<Rightarrow> conforms s x)
           [(''name'', STRING None),
            (''amount'', STRING None),
            (''description'', STRING None)]"
    by (rule conforms_OBJECT_E)
  from r p obtain a where a: "str_member (JObj ms) ''name'' = Some a" "member (JObj ms) (utf16 ''name'') = Some (JStr a)"
    using str_memberI [of ms "''name''" "None"] by auto
  from r p obtain b where b: "str_member (JObj ms) ''amount'' = Some b" "member (JObj ms) (utf16 ''amount'') = Some (JStr b)"
    using str_memberI [of ms "''amount''" "None"] by auto
  from r p obtain c where c: "str_member (JObj ms) ''description'' = Some c" "member (JObj ms) (utf16 ''description'') = Some (JStr c)"
    using str_memberI [of ms "''description''" "None"] by auto
  from a b c show ?thesis
    unfolding v by (simp add: as_FundingBadge_def funding_agrees_def)
qed

lemma conforms_plan:
  assumes "conforms responseSchema_const v"
  shows "\<exists>p. as_RenovationPlan v = Some p \<and> plan_agrees v p"
proof -
  from assms [unfolded responseSchema_const_def] obtain ms where v: "v = JObj ms"
    and r0: "list_all (\<lambda>k. map_of ms (utf16 k) \<noteq> None)
       [''summary'', ''phases'', ''roiProjection'', ''co2Savings'', ''funding'', ''totalCost'',
        ''totalDuration'', ''buildingStyle'']"
    and p0: "list_all (\<lambda>(k, s). case map_of ms (utf16 k) of None \<Rightarrow> True | Some x \<Rightarrow> conforms s x)
       [(''summary'', STRING (Some ''Executive summary of the renovation strategy.'')),
        (''buildingStyle'', STRING (Some ''Detected architectural style (e.g., Altbau, Plattenbau).'')),
        (''phases'', ARRAY (OBJECT [(''name'', STRING None), (''durationWeeks'', NUMBER None), (''costEstimate'', NUMBER None), (''description'', STRING None)] [''name'', ''durationWeeks'', ''costEstimate'', ''description''])),
        (''roiProjection'', ARRAY (OBJECT [(''year'', NUMBER None), (''value'', NUMBER (Some ''ROI Percentage''))] [''year'', ''value''])),
        (''co2Savings'', ARRAY (OBJECT [(''category'', STRING (Some ''Area of saving (e.g., Heating, Insulation)'')), (''savingTons'', NUMBER None), (''description'', STRING (Some ''Brief explanation of how this saving is achieved.''))] [''category'', ''savingTons'', ''description''])),
        (''funding'', ARRAY (OBJECT [(''name'', STRING None), (''amount'', STRING None), (''description'', STRING None)] [''name'', ''amount'', ''description''])),
        (''totalCost'', NUMBER None),
        (''totalDuration'', NUMBER (Some ''Total duration in weeks''))]"
    by (rule conforms_OBJECT_E)
  from r0 have r: "map_of ms (utf16 ''summary'') \<noteq> None" "map_of ms (utf16 ''buildingStyle'') \<noteq> None"
       "map_of ms (utf16 ''phases'') \<noteq> None" "map_of ms (utf16 ''roiProjection'') \<noteq> None"
       "map_of ms (utf16 ''co2Savings'') \<noteq> None" "map_of ms (utf16 ''funding'') \<noteq> None"
       "map_of ms (utf16 ''totalCost'') \<noteq> None" "map_of ms (utf16 ''totalDuration'') \<noteq> None"
    by simp_all
  from p0 have p:
       "case map_of ms (utf16 ''summary'') of None \<Rightarrow> True | Some x \<Rightarrow> conforms (STRING (Some ''Executive summary of the renovation strategy.'')) x"
       "case map_of ms (utf16 ''buildingStyle'') of None \<Rightarrow> True | Some x \<Rightarrow> conforms (STRING (Some ''Detected architectural style (e.g., Altbau, Plattenbau).'')) x"
       "case map_of ms (utf16 ''phases'') of None \<Rightarrow> True | Some x \<Rightarrow> conforms (ARRAY (OBJECT [(''name'', STRING None), (''durationWeeks'', NUMBER None), (''costEstimate'', NUMBER None), (''description'', STRING None)] [''name'', ''durationWeeks'', ''costEstimate'', ''description''])) x"
       "case map_of ms (utf16 ''roiProjection'') of None \<Rightarrow> True | Some x \<Rightarrow> conforms (ARRAY (OBJECT [(''year'', NUMBER None), (''value'', NUMBER (Some ''ROI Percentage''))] [''year'', ''value''])) x"
       "case map_of ms (utf16 ''co2Savings'') of None \<Rightarrow> True | Some x \<Rightarrow> conforms (ARRAY (OBJECT [(''category'', STRING (Some ''Area of saving (e.g., Heating, Insulation)'')), (''savingTons'', NUMBER None), (''description'', STRING (Some ''Brief explanation of how this saving is achieved.''))] [''category'', ''savingTons'', ''description''])) x"
       "case map_of ms (utf16 ''funding'') of None \<Rightarrow> True | Some x \<Rightarrow> conforms (ARRAY (OBJECT [(''name'', STRING None), (''amount'', STRING None), (''description'', STRING None)] [''name'', ''amount'', ''description''])) x"
       "case map_of ms (utf16 ''totalCost'') of None \<Rightarrow> True | Some x \<Rightarrow> conforms (NUMBER None) x"
       "case map_of ms (utf16 ''totalDuration'') of None \<Rightarrow> True | Some x \<Rightarrow> conforms (NUMBER (Some ''Total duration in weeks'')) x"
    by (simp_all del: conforms.simps)
  from str_memberI [OF r(1) p(1)] obtain s where s: "str_member (JObj ms) ''summary'' = Some s"
      "member (JObj ms) (utf16 ''summary'') = Some (JStr s)" by blast
  from str_memberI [OF r(2) p(2)] obtain b where b: "str_member (JObj ms) ''buildingStyle'' = Some b"
      "member (JObj ms) (utf16 ''buildingStyle'') = Some (JStr b)" by blast
  from num_memberI [OF r(7) p(7)] obtain tc where tc: "num_member (JObj ms) ''totalCost'' = Some tc"
      "member (JObj ms) (utf16 ''totalCost'') = Some (JNum tc)" by blast
  from num_memberI [OF r(8) p(8)] obtain td where td: "num_member (JObj ms) ''totalDuration'' = Some td"
      "member (JObj ms) (utf16 ''totalDuration'') = Some (JNum td)" by blast
  from arr_memberI [where f = as_RenovationPhase and R = phase_agrees, OF r(3) p(3) conforms_phase]
  obtain xs1 ph where ph: "arr_member as_RenovationPhase (JObj ms) ''phases'' = Some ph"
      "member (JObj ms) (utf16 ''phases'') = Some (JArr xs1)" "list_all2 phase_agrees xs1 ph" by blast
  from arr_memberI [where f = as_RoiMetric and R = roi_agrees, OF r(4) p(4) conforms_roi]
  obtain xs2 roi where roi: "arr_member as_RoiMetric (JObj ms) ''roiProjection'' = Some roi"
      "member (JObj ms) (utf16 ''roiProjection'') = Some (JArr xs2)" "list_all2 roi_agrees xs2 roi" by blast
  from arr_memberI [where f = as_Co2Metric and R = co2_agrees, OF r(5) p(5) conforms_co2]
  obtain xs3 co2 where co2: "arr_member as_Co2Metric (JObj ms) ''co2Savings'' = Some co2"
      "member (JObj ms) (utf16 ''co2Savings'') = Some (JArr xs3)" "list_all2 co2_agrees xs3 co2" by blast
  from arr_memberI [where f = as_FundingBadge and R = funding_agrees, OF r(6) p(6) conforms_funding]
  obtain xs4 fu where fu: "arr_member as_FundingBadge (JObj ms) ''funding'' = Some fu"
      "member (JObj ms) (utf16 ''funding'') = Some (JArr xs4)" "list_all2 funding_agrees xs4 fu" by blast
  from s b tc td ph roi co2 fu show ?thesis
    unfolding v by (simp add: as_RenovationPlan_def plan_agrees_def)
qed

section \<open>Properties of asset generation\<close>





lemma prefix_nonempty: "utf16 ''data:image/png;base64,'' @ d \<noteq> []"
  by (simp add: utf16_def)










section \<open>Properties of plan generation\<close>

lemma sublist_skip: "sublist xs ys \<Longrightarrow> sublist xs (zs @ ys)"
  by (auto simp: sublist_def) (metis append.assoc)

lemma prompt_address: "sublist (address dt) (plan_prompt e dt)"
  unfolding plan_prompt_def by (rule sublist_appendI | rule sublist_skip)+

lemma prompt_sqm: "sublist (toString e (sqm dt)) (plan_prompt e dt)"
  unfolding plan_prompt_def by (rule sublist_appendI | rule sublist_skip)+

lemma prompt_budget: "sublist (toString e (budget dt)) (plan_prompt e dt)"
  unfolding plan_prompt_def by (rule sublist_appendI | rule sublist_skip)+

lemma prompt_eff: "sublist (currentEfficiency dt) (plan_prompt e dt)"
  unfolding plan_prompt_def by (rule sublist_appendI | rule sublist_skip)+

lemma inline_images_imageParts:
  "inline_images (imageParts imgs) = map (\<lambda>img. \<lparr>mimeType = type img, data = base64 img\<rparr>) imgs"
  by (induction imgs) (simp_all add: inline_images_def imageParts_def List.map_filter_simps)

lemma inline_images_append: "inline_images (xs @ ys) = inline_images xs @ inline_images ys"
  by (simp add: inline_images_def List.map_filter_def)

lemma analyzeRenovation_requests:
  "API_KEY e = Some key \<Longrightarrow>
   requests (snd (analyzeRenovation e dt imgs w)) = requests w @ [(API_KEY e, plan_request e dt imgs)]"
  by (simp add: analyzeRenovation_def GoogleGenAI_def Let_def issue_def console_error_def split: sum.splits)

lemma analyzeRenovation_keyless:
  "API_KEY e = None \<Longrightarrow>
   analyzeRenovation e dt imgs w =
     (Inl (Error (utf16 ''An API Key must be set when running in a browser'')), w)"
  by (simp add: analyzeRenovation_def GoogleGenAI_def)

text \<open>
  Claim C2. The request that \<open>analyzeRenovation\<close> builds, and issues once its client
  has a key, has one inline part per input image, with its mime type and base64 data, in
  the input order, followed by one text part; the instruction text contains the address,
  the rendered floor area, the rendered budget and the efficiency class. (This holds for
  every input, also for an empty address or image list.)
\<close>

theorem plan_request_carries_images_and_details:
  "(API_KEY e \<noteq> None \<longrightarrow>
      requests (snd (analyzeRenovation e dt imgs w)) =
        requests w @ [(API_KEY e, plan_request e dt imgs)])
   \<and> contents (plan_request e dt imgs) =
       map (\<lambda>img. \<lparr>inlineData = Some \<lparr>mimeType = type img, data = base64 img\<rparr>, part_text = None\<rparr>) imgs
       @ [\<lparr>inlineData = None, part_text = Some (plan_prompt e dt)\<rparr>]
   \<and> inline_images (contents (plan_request e dt imgs)) =
       map (\<lambda>img. \<lparr>mimeType = type img, data = base64 img\<rparr>) imgs
   \<and> length (inline_images (contents (plan_request e dt imgs))) = length imgs
   \<and> sublist (address dt) (plan_prompt e dt)
   \<and> sublist (toString e (sqm dt)) (plan_prompt e dt)
   \<and> sublist (toString e (budget dt)) (plan_prompt e dt)
   \<and> sublist (currentEfficiency dt) (plan_prompt e dt)"
proof -
  have c: "contents (plan_request e dt imgs) =
      imageParts imgs @ [\<lparr>inlineData = None, part_text = Some (plan_prompt e dt)\<rparr>]"
    by (simp add: plan_request_def)
  have i: "inline_images (contents (plan_request e dt imgs)) =
       map (\<lambda>img. \<lparr>mimeType = type img, data = base64 img\<rparr>) imgs"
    unfolding c inline_images_append inline_images_imageParts
    by (simp add: inline_images_def List.map_filter_simps)
  have r: "API_KEY e \<noteq> None \<longrightarrow>
      requests (snd (analyzeRenovation e dt imgs w)) =
        requests w @ [(API_KEY e, plan_request e dt imgs)]"
    using analyzeRenovation_requests [of e _ dt imgs w] by blast
  show ?thesis
    using r c i
      prompt_address [of dt e] prompt_sqm [of e dt] prompt_budget [of e dt]
      prompt_eff [of dt e]
    by (simp add: imageParts_def)
qed

theorem plan_request_carries_images_and_details_witness:
  "inline_images (contents (plan_request (reply_env None) demo_details demo_images)) =
     [\<lparr>mimeType = utf16 ''image/jpeg'', data = utf16 ''/9j/4AAQ''\<rparr>]
   \<and> length (inline_images (contents (plan_request (reply_env None) demo_details demo_images))) = 1
   \<and> length (requests (snd (analyzeRenovation (reply_env None) demo_details demo_images world0))) = 1
   \<and> sublist (utf16 ''Torstra'' @ [0xDF] @ utf16 ''e 45, Berlin'') (plan_prompt (reply_env None) demo_details)
   \<and> sublist (utf16 ''500'') (plan_prompt (reply_env None) demo_details)
   \<and> sublist (utf16 ''250000'') (plan_prompt (reply_env None) demo_details)
   \<and> sublist (utf16 ''E'') (plan_prompt (reply_env None) demo_details)"
proof -
  have d: "address demo_details = utf16 ''Torstra'' @ [0xDF] @ utf16 ''e 45, Berlin''"
    "toString (reply_env None) (sqm demo_details) = utf16 ''500''"
    "toString (reply_env None) (budget demo_details) = utf16 ''250000''"
    "currentEfficiency demo_details = utf16 ''E''"
    by (simp_all add: demo_details_def reply_env_def demo_toString_def)
  have i: "map (\<lambda>img. \<lparr>mimeType = type img, data = base64 img\<rparr>) demo_images =
      [\<lparr>mimeType = utf16 ''image/jpeg'', data = utf16 ''/9j/4AAQ''\<rparr>]"
    by (simp add: demo_images_def demo_image_def)
  note t = plan_request_carries_images_and_details [of "reply_env None" demo_details demo_images world0]
  have "API_KEY (reply_env None) \<noteq> None"
    by (simp add: reply_env_def)
  with t have "requests (snd (analyzeRenovation (reply_env None) demo_details demo_images world0)) =
      requests world0 @ [(API_KEY (reply_env None), plan_request (reply_env None) demo_details demo_images)]"
    by blast
  then have r: "length (requests (snd (analyzeRenovation (reply_env None) demo_details demo_images world0))) = 1"
    by (simp add: world0_def)
  from t have n: "inline_images (contents (plan_request (reply_env None) demo_details demo_images)) =
      map (\<lambda>img. \<lparr>mimeType = type img, data = base64 img\<rparr>) demo_images"
    by blast
  from t have p: "sublist (address demo_details) (plan_prompt (reply_env None) demo_details)"
    "sublist (toString (reply_env None) (sqm demo_details)) (plan_prompt (reply_env None) demo_details)"
    "sublist (toString (reply_env None) (budget demo_details)) (plan_prompt (reply_env None) demo_details)"
    "sublist (currentEfficiency demo_details) (plan_prompt (reply_env None) demo_details)"
    by blast+
  from r n [unfolded i] p [unfolded d] show ?thesis
    by (simp only: list.size refl simp_thms One_nat_def add_0)
qed

lemma demo_plan_derivation: "parse_value 1000 demo_plan_text = Some (demo_plan_json, [])"
  by code_simp

lemma demo_plan_conforms: "conforms responseSchema_const demo_plan_json"
  by code_simp

lemma demo_plan_typed: "as_RenovationPlan demo_plan_json = Some demo_plan"
  by code_simp

lemma braces_parse: \<open>JSON_parse (utf16 ''{}'') = Inr (JObj [])\<close>
  by code_simp

lemma braces_not_conforms: "\<not> conforms responseSchema_const (JObj [])"
  by code_simp

lemma JSON_parse_error: "JSON_parse t = Inl x \<Longrightarrow> x = SyntaxError"
  by (cases "parse_value (2 * length t + 2) t")
     (auto simp only: JSON_parse_def option.case prod.case sum.inject split: if_splits)

lemma JSON_parse_rejects_iff:
  "JSON_parse t = Inl SyntaxError \<longleftrightarrow> \<not> (\<exists>n v r. parse_value n t = Some (v, r) \<and> skip_ws r = [])"
proof -
  have "JSON_parse t = Inl SyntaxError \<longleftrightarrow> \<not> (\<exists>v. JSON_parse t = Inr v)"
    by (cases "JSON_parse t") (auto dest: JSON_parse_error)
  then show ?thesis
    unfolding JSON_parse_iff by blast
qed

lemma analyzeRenovation_text:
  assumes "API_KEY e = Some key"
      and "generateContent e (API_KEY e) (plan_request e dt imgs) = Inr response"
      and "response_text response = Some t" and "t \<noteq> []"
  shows "fst (analyzeRenovation e dt imgs w) = JSON_parse t"
  using assms by (simp add: analyzeRenovation_def GoogleGenAI_def Let_def split: sum.splits)

text \<open>
  Claim C1, as amended. With a key set, the result for a non-empty response text is that of
  \<open>JSON.parse\<close>: a text that the JSON grammar does not derive makes
  \<open>analyzeRenovation\<close> fail with the \<open>SyntaxError\<close>, and a text that parses is
  returned as the parsed value, whole, whether or not it has the required fields.
\<close>

theorem analyzeRenovation_parse_or_fail:
  assumes "API_KEY e = Some key"
      and "generateContent e (API_KEY e) (plan_request e dt imgs) = Inr response"
      and "response_text response = Some t" and "t \<noteq> []"
  shows "fst (analyzeRenovation e dt imgs w) = JSON_parse t
       \<and> (JSON_parse t = Inl SyntaxError \<or> (\<exists>v. JSON_parse t = Inr v))
       \<and> (JSON_parse t = Inl SyntaxError \<longleftrightarrow>
            \<not> (\<exists>n v r. parse_value n t = Some (v, r) \<and> skip_ws r = []))
       \<and> (\<forall>v. JSON_parse t = Inr v \<longleftrightarrow>
            (\<exists>n r. parse_value n t = Some (v, r) \<and> skip_ws r = []))"
proof -
  have "JSON_parse t = Inl SyntaxError \<or> (\<exists>v. JSON_parse t = Inr v)"
    by (cases "JSON_parse t") (auto dest: JSON_parse_error)
  with analyzeRenovation_text [OF assms, of w] JSON_parse_rejects_iff [of t] JSON_parse_iff [of t]
  show ?thesis by blast
qed

lemma prose_parse: "JSON_parse (utf16 ''No plan, try again.'') = Inl SyntaxError"
  by code_simp

theorem analyzeRenovation_parse_or_fail_witness:
  "JSON_parse (utf16 ''No plan, try again.'') = Inl SyntaxError
   \<and> fst (analyzeRenovation (reply_env (Some (utf16 ''No plan, try again.''))) demo_details demo_images world0)
       = Inl SyntaxError"
  using analyzeRenovation_parse_or_fail [of "reply_env (Some (utf16 ''No plan, try again.''))" "utf16 ''key''" demo_details demo_images
      "\<lparr>candidates = None, response_text = Some (utf16 ''No plan, try again.'')\<rparr>"
      "utf16 ''No plan, try again.''" world0] prose_parse
  by (simp add: reply_env_def utf16_def)

text \<open>
  Claim C1 as stated fails: the text \<open>{}\<close> parses, lacks every required field, and is
  returned as the plan.
\<close>

theorem analyzeRenovation_returns_incomplete_plan:
  \<open>fst (analyzeRenovation (reply_env (Some (utf16 ''{}''))) demo_details demo_images world0) = Inr (JObj [])
   \<and> \<not> conforms responseSchema_const (JObj [])
   \<and> as_RenovationPlan (JObj []) = None\<close>
proof -
  have "fst (analyzeRenovation (reply_env (Some (utf16 ''{}''))) demo_details demo_images world0)
      = JSON_parse (utf16 ''{}'')"
    by (rule analyzeRenovation_text [where response = "\<lparr>candidates = None, response_text = Some (utf16 ''{}'')\<rparr>"
          and key = "utf16 ''key''"])
       (simp_all add: reply_env_def utf16_def)
  moreover have "as_RenovationPlan (JObj []) = None"
    by (simp add: as_RenovationPlan_def str_member_def member_def)
  ultimately show ?thesis
    using braces_parse braces_not_conforms by simp
qed

text \<open>
  Claim C3. When the response text is well-formed JSON for a value that conforms to the
  declared schema, \<open>analyzeRenovation\<close> returns that value unchanged, and read at the
  type \<open>RenovationPlan\<close> each of its fields is the value of that name in the text:
  numbers are the exact values of their literals and every list has the length of its
  array.
\<close>

theorem analyzeRenovation_round_trip:
  assumes "API_KEY e = Some key"
      and "generateContent e (API_KEY e) (plan_request e dt imgs) = Inr response"
      and "response_text response = Some t"
      and "parse_value n t = Some (v, r)" and "skip_ws r = []"
      and "conforms responseSchema_const v"
  shows "fst (analyzeRenovation e dt imgs w) = Inr v
       \<and> (\<exists>p. as_RenovationPlan v = Some p \<and> plan_agrees v p)"
proof -
  from assms(4) have "t \<noteq> []"
    using parse_value_Nil [of n] by auto
  from analyzeRenovation_text [OF assms(1,2,3) this, of w] assms(4,5)
  have "fst (analyzeRenovation e dt imgs w) = Inr v"
    using JSON_parse_iff [of t v] by auto
  with conforms_plan [OF assms(6)] show ?thesis by simp
qed

theorem analyzeRenovation_round_trip_witness:
  "fst (analyzeRenovation (reply_env (Some demo_plan_text)) demo_details demo_images world0)
     = Inr demo_plan_json
   \<and> as_RenovationPlan demo_plan_json = Some demo_plan
   \<and> plan_agrees demo_plan_json demo_plan
   \<and> member demo_plan_json (utf16 ''totalCost'') = Some (JNum 180000)
   \<and> totalCost demo_plan = 180000
   \<and> length (phases demo_plan) = 2"
proof -
  from analyzeRenovation_round_trip [of "reply_env (Some demo_plan_text)" "utf16 ''key''" demo_details demo_images
      "\<lparr>candidates = None, response_text = Some demo_plan_text\<rparr>" demo_plan_text
      1000 demo_plan_json "[]" world0, OF _ _ _ demo_plan_derivation _ demo_plan_conforms]
  have "fst (analyzeRenovation (reply_env (Some demo_plan_text)) demo_details demo_images world0)
          = Inr demo_plan_json
        \<and> (\<exists>p. as_RenovationPlan demo_plan_json = Some p \<and> plan_agrees demo_plan_json p)"
    by (simp add: reply_env_def skip_ws_def)
  moreover have "member demo_plan_json (utf16 ''totalCost'') = Some (JNum 180000)"
    by (simp add: member_def demo_plan_json_def utf16_def)
  moreover have "totalCost demo_plan = 180000" "length (phases demo_plan) = 2"
    by (simp_all add: demo_plan_def)
  ultimately show ?thesis
    using demo_plan_typed by auto
qed

text \<open>
  Claim C4. A reply of the service whose text is absent or empty makes
  \<open>analyzeRenovation\<close> fail with \<open>Error "No response from AI"\<close>.
\<close>

theorem analyzeRenovation_empty_response:
  assumes "API_KEY e = Some key"
      and "generateContent e (API_KEY e) (plan_request e dt imgs) = Inr response"
      and "response_text response = None \<or> response_text response = Some []"
  shows "fst (analyzeRenovation e dt imgs w) = Inl (Error (utf16 ''No response from AI''))"
  using assms by (auto simp: analyzeRenovation_def GoogleGenAI_def Let_def split: sum.splits)

theorem analyzeRenovation_empty_response_witness:
  "fst (analyzeRenovation (reply_env None) demo_details demo_images world0)
     = Inl (Error (utf16 ''No response from AI''))
   \<and> fst (analyzeRenovation (reply_env (Some [])) demo_details demo_images world0)
     = Inl (Error (utf16 ''No response from AI''))"
  using analyzeRenovation_empty_response [of "reply_env None" "utf16 ''key''" demo_details demo_images "\<lparr>candidates = None, response_text = None\<rparr>" world0]
        analyzeRenovation_empty_response [of "reply_env (Some [])" "utf16 ''key''" demo_details demo_images "\<lparr>candidates = None, response_text = Some []\<rparr>" world0]
  by (simp add: reply_env_def)

text \<open>
  Claim C5, as amended. Every failure of the service call reaches the caller as the very
  error value that the call rejected with, after one request and one log line; without a
  key the constructor of the client throws and its error reaches the caller before any
  request or log line. Nothing is retried or swallowed. The error is not wrapped: it
  differs from the \<open>SyntaxError\<close> of a malformed payload exactly when the service did not
  itself reject with a \<open>SyntaxError\<close>, and from the error of an empty response exactly
  when it is not that value.
\<close>

theorem analyzeRenovation_service_failure:
  "(API_KEY e = None \<longrightarrow>
      analyzeRenovation e dt imgs w =
        (Inl (Error (utf16 ''An API Key must be set when running in a browser'')), w))
 \<and> (API_KEY e = Some key \<and> generateContent e (API_KEY e) (plan_request e dt imgs) = Inl err \<longrightarrow>
      analyzeRenovation e dt imgs w =
        (Inl err, console_error (utf16 ''Gemini Analysis Failed:'') err
                    (issue e (plan_request e dt imgs) w))
    \<and> requests (snd (analyzeRenovation e dt imgs w)) =
        requests w @ [(API_KEY e, plan_request e dt imgs)]
    \<and> console (snd (analyzeRenovation e dt imgs w)) =
        console w @ [(utf16 ''Gemini Analysis Failed:'', err)]
    \<and> (fst (analyzeRenovation e dt imgs w) = Inl SyntaxError \<longleftrightarrow> err = SyntaxError)
    \<and> (fst (analyzeRenovation e dt imgs w) = Inl (Error (utf16 ''No response from AI'')) \<longleftrightarrow>
         err = Error (utf16 ''No response from AI'')))"
proof (intro conjI impI)
  assume "API_KEY e = None"
  then show "analyzeRenovation e dt imgs w =
        (Inl (Error (utf16 ''An API Key must be set when running in a browser'')), w)"
    by (rule analyzeRenovation_keyless)
next
  assume a: "API_KEY e = Some key \<and> generateContent e (API_KEY e) (plan_request e dt imgs) = Inl err"
  then have k: "API_KEY e = Some key"
    and g: "generateContent e (API_KEY e) (plan_request e dt imgs) = Inl err"
    by blast+
  from k g have r: "analyzeRenovation e dt imgs w =
        (Inl err, console_error (utf16 ''Gemini Analysis Failed:'') err
                    (issue e (plan_request e dt imgs) w))"
    by (simp add: analyzeRenovation_def GoogleGenAI_def Let_def)
  show "analyzeRenovation e dt imgs w =
        (Inl err, console_error (utf16 ''Gemini Analysis Failed:'') err
                    (issue e (plan_request e dt imgs) w))"
    by (rule r)
  show "requests (snd (analyzeRenovation e dt imgs w)) =
        requests w @ [(API_KEY e, plan_request e dt imgs)]"
    unfolding r by (simp add: issue_def console_error_def)
  show "console (snd (analyzeRenovation e dt imgs w)) =
        console w @ [(utf16 ''Gemini Analysis Failed:'', err)]"
    unfolding r by (simp add: issue_def console_error_def)
  show "fst (analyzeRenovation e dt imgs w) = Inl SyntaxError \<longleftrightarrow> err = SyntaxError"
    unfolding r by simp
  show "fst (analyzeRenovation e dt imgs w) = Inl (Error (utf16 ''No response from AI'')) \<longleftrightarrow>
         err = Error (utf16 ''No response from AI'')"
    unfolding r by simp
qed

theorem analyzeRenovation_service_failure_witness:
  "analyzeRenovation (failing_env (ApiError 429 (utf16 ''quota''))) demo_details demo_images world0 =
     (Inl (ApiError 429 (utf16 ''quota'')),
      \<lparr>requests = [(Some (utf16 ''key''),
                     plan_request (failing_env (ApiError 429 (utf16 ''quota''))) demo_details demo_images)],
       console = [(utf16 ''Gemini Analysis Failed:'', ApiError 429 (utf16 ''quota''))],
       alerts = []\<rparr>)
   \<and> fst (analyzeRenovation (failing_env (ApiError 429 (utf16 ''quota''))) demo_details demo_images world0)
       \<noteq> Inl SyntaxError
   \<and> analyzeRenovation keyless_env demo_details demo_images world0 =
       (Inl (Error (utf16 ''An API Key must be set when running in a browser'')), world0)"
  using analyzeRenovation_service_failure [of "failing_env (ApiError 429 (utf16 ''quota''))" demo_details demo_images
      world0 "utf16 ''key''" "ApiError 429 (utf16 ''quota'')"]
    analyzeRenovation_service_failure [of keyless_env demo_details demo_images world0]
  by (simp add: failing_env_def keyless_env_def issue_def console_error_def world0_def)

text \<open>
  Claim C5 as stated fails. A service call that rejects with a \<open>SyntaxError\<close> (the SDK
  reading a reply that is not JSON) and a reply whose payload is malformed give the same
  result, the same request and the same log line: the caller cannot tell them apart.
\<close>

theorem analyzeRenovation_service_failure_as_malformed:
  "fst (analyzeRenovation (failing_env SyntaxError) demo_details demo_images world0) = Inl SyntaxError
   \<and> analyzeRenovation (failing_env SyntaxError) demo_details demo_images world0 =
       analyzeRenovation (reply_env (Some (utf16 ''No plan, try again.''))) demo_details demo_images world0"
proof -
  have a: "analyzeRenovation (failing_env SyntaxError) demo_details demo_images world0 =
      (Inl SyntaxError, console_error (utf16 ''Gemini Analysis Failed:'') SyntaxError
         (issue (failing_env SyntaxError) (plan_request (failing_env SyntaxError) demo_details demo_images) world0))"
    by (simp add: analyzeRenovation_def GoogleGenAI_def Let_def failing_env_def)
  have b: "analyzeRenovation (reply_env (Some (utf16 ''No plan, try again.''))) demo_details demo_images world0 =
      (Inl SyntaxError, console_error (utf16 ''Gemini Analysis Failed:'') SyntaxError
         (issue (reply_env (Some (utf16 ''No plan, try again.'')))
            (plan_request (reply_env (Some (utf16 ''No plan, try again.''))) demo_details demo_images) world0))"
    using prose_parse
    by (simp add: analyzeRenovation_def GoogleGenAI_def Let_def reply_env_def utf16_def)
  have c: "plan_request (failing_env SyntaxError) demo_details demo_images =
      plan_request (reply_env (Some (utf16 ''No plan, try again.''))) demo_details demo_images"
    by (simp add: plan_request_def plan_prompt_def failing_env_def reply_env_def)
  show ?thesis
    unfolding a b c by (simp add: issue_def failing_env_def reply_env_def)
qed

section \<open>Properties of the dashboard\<close>

lemma take_turn_frame:
  assumes "turn_phase t \<noteq> j"
  shows "phaseImages (fst (take_turn t (d, w))) j = phaseImages d j
       \<and> generatingPhase (fst (take_turn t (d, w))) j = generatingPhase d j
       \<and> blueprints (fst (take_turn t (d, w))) j = blueprints d j
       \<and> generatingBlueprint (fst (take_turn t (d, w))) j = generatingBlueprint d j
       \<and> plan_prop (fst (take_turn t (d, w))) = plan_prop d"
  using assms
  by (cases t)
     (auto simp: handleGenerateImage_settled_def handleGenerateBlueprint_settled_def
        setPhaseImages_def setGeneratingPhase_def setBlueprints_def setGeneratingBlueprint_def
      split: sum.splits)

lemma take_turns_frame:
  assumes "\<forall>t \<in> set ts. turn_phase t \<noteq> j"
  shows "phaseImages (fst (take_turns ts (d, w))) j = phaseImages d j
       \<and> generatingPhase (fst (take_turns ts (d, w))) j = generatingPhase d j
       \<and> blueprints (fst (take_turns ts (d, w))) j = blueprints d j
       \<and> generatingBlueprint (fst (take_turns ts (d, w))) j = generatingBlueprint d j
       \<and> plan_prop (fst (take_turns ts (d, w))) = plan_prop d"
  using assms
proof (induction ts arbitrary: d w)
  case Nil
  then show ?case by (simp add: take_turns_def)
next
  case (Cons t ts)
  obtain d1 w1 where s: "take_turn t (d, w) = (d1, w1)" by (cases "take_turn t (d, w)")
  from Cons.prems have "turn_phase t \<noteq> j" "\<forall>t \<in> set ts. turn_phase t \<noteq> j" by simp_all
  from take_turn_frame [OF this(1), of d w] Cons.IH [OF this(2), of d1 w1] s
  show ?case by (simp add: take_turns_def)
qed

lemma handleGenerateImage_turns:
  "fst (checkApiKey aistudio w) = Inr True \<Longrightarrow>
   snd (handleGenerateImage aistudio e i descr d w) =
     take_turns
       [ImageStarted i,
        ImageSettled i (fst (generateRenovationImage e descr (buildingStyle (plan_prop d))
                               (selected_imageSize d) (snd (checkApiKey aistudio w))))]
       (d, snd (generateRenovationImage e descr (buildingStyle (plan_prop d))
                  (selected_imageSize d) (snd (checkApiKey aistudio w))))"
  by (auto simp: handleGenerateImage_def take_turns_def Let_def split: prod.splits sum.splits)

lemma handlers_frame:
  "plan_prop (fst (snd (handleGenerateImage aistudio e i descr d w))) = plan_prop d
 \<and> plan_prop (fst (snd (handleGenerateBlueprint aistudio e i nm descr d w))) = plan_prop d
 \<and> (\<forall>j. j \<noteq> i \<longrightarrow>
        phaseImages (fst (snd (handleGenerateImage aistudio e i descr d w))) j = phaseImages d j \<and>
        generatingPhase (fst (snd (handleGenerateImage aistudio e i descr d w))) j = generatingPhase d j \<and>
        blueprints (fst (snd (handleGenerateBlueprint aistudio e i nm descr d w))) j = blueprints d j \<and>
        generatingBlueprint (fst (snd (handleGenerateBlueprint aistudio e i nm descr d w))) j = generatingBlueprint d j)
 \<and> blueprints (fst (snd (handleGenerateImage aistudio e i descr d w))) = blueprints d
 \<and> generatingBlueprint (fst (snd (handleGenerateImage aistudio e i descr d w))) = generatingBlueprint d
 \<and> phaseImages (fst (snd (handleGenerateBlueprint aistudio e i nm descr d w))) = phaseImages d
 \<and> generatingPhase (fst (snd (handleGenerateBlueprint aistudio e i nm descr d w))) = generatingPhase d
 \<and> ((fst (checkApiKey aistudio w) \<noteq> Inr True \<or>
       (\<exists>err. fst (generateRenovationImage e descr (buildingStyle (plan_prop d)) (selected_imageSize d)
                      (snd (checkApiKey aistudio w))) = Inl err)) \<longrightarrow>
      phaseImages (fst (snd (handleGenerateImage aistudio e i descr d w))) = phaseImages d)
 \<and> ((fst (checkApiKey aistudio w) \<noteq> Inr True \<or>
       (\<exists>err. fst (generateBlueprintImage e nm descr (buildingStyle (plan_prop d))
                      (snd (checkApiKey aistudio w))) = Inl err)) \<longrightarrow>
      blueprints (fst (snd (handleGenerateBlueprint aistudio e i nm descr d w))) = blueprints d)"
  by (auto simp: handleGenerateImage_def handleGenerateBlueprint_def Let_def
        handleGenerateImage_settled_def handleGenerateBlueprint_settled_def
        setPhaseImages_def setGeneratingPhase_def setBlueprints_def setGeneratingBlueprint_def
      split: prod.splits sum.splits if_splits)

text \<open>
  Claim C7. A call of \<open>handleGenerateImage\<close> or \<open>handleGenerateBlueprint\<close> for phase
  \<open>i\<close> leaves the plan as it is, leaves every other phase index \<open>j\<close> of its own two
  maps and the two maps of the other handler as they are, and when it fails (the key
  check does not pass, or the generation call rejects) leaves the stored asset of phase
  \<open>i\<close> as it was. The same holds when calls overlap: turns of calls for other phases, in
  any order and with any outcomes, leave the four entries of phase \<open>k\<close> and the plan as
  they are.
\<close>

theorem dashboard_generation_frame:
  "((\<forall>t \<in> set ts. turn_phase t \<noteq> k) \<longrightarrow>
      phaseImages (fst (take_turns ts (d0, w0))) k = phaseImages d0 k \<and>
      generatingPhase (fst (take_turns ts (d0, w0))) k = generatingPhase d0 k \<and>
      blueprints (fst (take_turns ts (d0, w0))) k = blueprints d0 k \<and>
      generatingBlueprint (fst (take_turns ts (d0, w0))) k = generatingBlueprint d0 k \<and>
      plan_prop (fst (take_turns ts (d0, w0))) = plan_prop d0)
 \<and> plan_prop (fst (snd (handleGenerateImage aistudio e i descr d w))) = plan_prop d
 \<and> plan_prop (fst (snd (handleGenerateBlueprint aistudio e i nm descr d w))) = plan_prop d
 \<and> (\<forall>j. j \<noteq> i \<longrightarrow>
        phaseImages (fst (snd (handleGenerateImage aistudio e i descr d w))) j = phaseImages d j \<and>
        generatingPhase (fst (snd (handleGenerateImage aistudio e i descr d w))) j = generatingPhase d j \<and>
        blueprints (fst (snd (handleGenerateBlueprint aistudio e i nm descr d w))) j = blueprints d j \<and>
        generatingBlueprint (fst (snd (handleGenerateBlueprint aistudio e i nm descr d w))) j = generatingBlueprint d j)
 \<and> blueprints (fst (snd (handleGenerateImage aistudio e i descr d w))) = blueprints d
 \<and> generatingBlueprint (fst (snd (handleGenerateImage aistudio e i descr d w))) = generatingBlueprint d
 \<and> phaseImages (fst (snd (handleGenerateBlueprint aistudio e i nm descr d w))) = phaseImages d
 \<and> generatingPhase (fst (snd (handleGenerateBlueprint aistudio e i nm descr d w))) = generatingPhase d
 \<and> ((fst (checkApiKey aistudio w) \<noteq> Inr True \<or>
       (\<exists>err. fst (generateRenovationImage e descr (buildingStyle (plan_prop d)) (selected_imageSize d)
                      (snd (checkApiKey aistudio w))) = Inl err)) \<longrightarrow>
      phaseImages (fst (snd (handleGenerateImage aistudio e i descr d w))) = phaseImages d)
 \<and> ((fst (checkApiKey aistudio w) \<noteq> Inr True \<or>
       (\<exists>err. fst (generateBlueprintImage e nm descr (buildingStyle (plan_prop d))
                      (snd (checkApiKey aistudio w))) = Inl err)) \<longrightarrow>
      blueprints (fst (snd (handleGenerateBlueprint aistudio e i nm descr d w))) = blueprints d)"
proof (rule conjI)
  show "(\<forall>t \<in> set ts. turn_phase t \<noteq> k) \<longrightarrow>
      phaseImages (fst (take_turns ts (d0, w0))) k = phaseImages d0 k \<and>
      generatingPhase (fst (take_turns ts (d0, w0))) k = generatingPhase d0 k \<and>
      blueprints (fst (take_turns ts (d0, w0))) k = blueprints d0 k \<and>
      generatingBlueprint (fst (take_turns ts (d0, w0))) k = generatingBlueprint d0 k \<and>
      plan_prop (fst (take_turns ts (d0, w0))) = plan_prop d0"
    using take_turns_frame [of ts k d0 w0] by blast
qed (rule handlers_frame)

theorem dashboard_generation_frame_witness:
  "fst (checkApiKey None world0) = Inr True
   \<and> fst (generateBlueprintImage demo_image_env (utf16 ''Roof'') (utf16 ''Insulate'')
          (buildingStyle (plan_prop demo_dashboard)) (snd (checkApiKey None world0)))
       = Inl (Error (utf16 ''No blueprint generated''))
   \<and> blueprints (fst (snd (handleGenerateBlueprint None demo_image_env 0 (utf16 ''Roof'')
          (utf16 ''Insulate'') demo_dashboard world0))) 0 = None
   \<and> blueprints (fst (snd (handleGenerateBlueprint None demo_image_env 0 (utf16 ''Roof'')
          (utf16 ''Insulate'') demo_dashboard world0))) 1 = Some (utf16 ''data:image/png;base64,QkxVRQ=='')
   \<and> generatingBlueprint (fst (snd (handleGenerateBlueprint None demo_image_env 0 (utf16 ''Roof'')
          (utf16 ''Insulate'') demo_dashboard world0))) 1 = Some True
   \<and> phaseImages (fst (snd (handleGenerateImage None demo_image_env 0 (utf16 ''Insulate'')
          demo_dashboard world0))) 1 = None
   \<and> plan_prop (fst (snd (handleGenerateBlueprint None demo_image_env 0 (utf16 ''Roof'')
          (utf16 ''Insulate'') demo_dashboard world0))) = demo_plan
   \<and> blueprints (fst (take_turns demo_turns (demo_dashboard, world0))) 1
       = Some (utf16 ''data:image/png;base64,QkxVRQ=='')
   \<and> generatingBlueprint (fst (take_turns demo_turns (demo_dashboard, world0))) 1 = Some True
   \<and> phaseImages (fst (take_turns demo_turns (demo_dashboard, world0))) 1 = None
   \<and> plan_prop (fst (take_turns demo_turns (demo_dashboard, world0))) = demo_plan"
proof -
  have k: "fst (checkApiKey None world0) = Inr True" "snd (checkApiKey None world0) = world0"
    by (simp_all add: checkApiKey_def)
  have f: "fst (generateBlueprintImage demo_image_env (utf16 ''Roof'') (utf16 ''Insulate'')
          (buildingStyle (plan_prop demo_dashboard)) (snd (checkApiKey None world0)))
       = Inl (Error (utf16 ''No blueprint generated''))"
    by (simp add: generateBlueprintImage_def image_call_def GoogleGenAI_def Let_def issue_def
        demo_image_env_def image_request_def demo_text_response_def candidate_parts_def)
  note c = dashboard_generation_frame [where ts = demo_turns and k = 1 and ?d0.0 = demo_dashboard
      and ?w0.0 = world0 and aistudio = None and e = demo_image_env and i = 0
      and descr = "utf16 ''Insulate''" and d = demo_dashboard and w = world0 and nm = "utf16 ''Roof''"]
  have o: "\<forall>t \<in> set demo_turns. turn_phase t \<noteq> 1"
    by (simp add: demo_turns_def)
  from c o have u:
    "phaseImages (fst (take_turns demo_turns (demo_dashboard, world0))) 1 = phaseImages demo_dashboard 1"
    "generatingBlueprint (fst (take_turns demo_turns (demo_dashboard, world0))) 1 = generatingBlueprint demo_dashboard 1"
    "blueprints (fst (take_turns demo_turns (demo_dashboard, world0))) 1 = blueprints demo_dashboard 1"
    "plan_prop (fst (take_turns demo_turns (demo_dashboard, world0))) = plan_prop demo_dashboard"
    by blast+
  note t = c [THEN conjunct2]
  have b: "blueprints (fst (snd (handleGenerateBlueprint None demo_image_env 0 (utf16 ''Roof'')
          (utf16 ''Insulate'') demo_dashboard world0))) = blueprints demo_dashboard"
    using t f by blast
  have g: "generatingBlueprint (fst (snd (handleGenerateBlueprint None demo_image_env 0 (utf16 ''Roof'')
          (utf16 ''Insulate'') demo_dashboard world0))) 1 = generatingBlueprint demo_dashboard 1"
    using t by simp
  have p: "phaseImages (fst (snd (handleGenerateImage None demo_image_env 0 (utf16 ''Insulate'')
          demo_dashboard world0))) 1 = phaseImages demo_dashboard 1"
    using t by simp
  have q: "plan_prop (fst (snd (handleGenerateBlueprint None demo_image_env 0 (utf16 ''Roof'')
          (utf16 ''Insulate'') demo_dashboard world0))) = plan_prop demo_dashboard"
    using t by blast
  show ?thesis
    unfolding b g p q u using k(1) f by (simp add: demo_dashboard_def)
qed



section \<open>Properties of the application\<close>

text \<open>
  Claim C8 fails on this run: the form's button stays enabled while a call is in flight,
  a second call that fails after the first succeeded sets the error message at step 3,
  and \<open>handleReset\<close> leaves it set.
\<close>

theorem reset_after_overlapping_analyses:
  "run overlapping_analyses initial_session =
     Some \<lparr>app = initial_App
                  \<lparr>error := Some (utf16 ''Failed to generate plan. Please try again or check your API Key.'')\<rparr>,
           in_flight = 0\<rparr>
   \<and> initial_App\<lparr>error := Some (utf16 ''Failed to generate plan. Please try again or check your API Key.'')\<rparr>
       \<noteq> initial_App"
proof -
  have "run overlapping_analyses initial_session =
     Some \<lparr>app = initial_App
                  \<lparr>error := Some (utf16 ''Failed to generate plan. Please try again or check your API Key.'')\<rparr>,
           in_flight = 0\<rparr>"
    by (simp add: overlapping_analyses_def initial_session_def initial_App_def initial_details_def
        fire_def Let_def Button_disabled_def handleAnalysis_begin_def handleAnalysis_settled_def
        handleReset_def demo_image_def demo_plan_json_def truthy_def utf16_def)
  moreover have "error (initial_App\<lparr>error := Some (utf16 ''Failed to generate plan. Please try again or check your API Key.'')\<rparr>)
      \<noteq> error initial_App"
    by (simp add: initial_App_def)
  ultimately show ?thesis by metis
qed

text \<open>
  In a serial run the reset does return the application to its initial state.
\<close>

lemma settled_initial: "settled initial_session"
  by (simp add: settled_def initial_session_def initial_App_def)

lemma settled_fire:
  assumes "settled x" and "fire ev x = Some y" and "case ev of ClickGenerate \<Rightarrow> in_flight x = 0 | _ \<Rightarrow> True"
  shows "settled y"
proof (cases ev)
  case ClickGenerate
  with assms show ?thesis
    by (auto simp: settled_def fire_def Let_def Button_disabled_def handleAnalysis_begin_def
        split: if_splits)
next
  case (AnalysisSettled outcome)
  with assms show ?thesis
    by (cases outcome) (auto simp: settled_def fire_def Let_def handleAnalysis_settled_def split: if_splits)
next
  case ClickReset
  with assms show ?thesis
    by (auto simp: settled_def fire_def Let_def handleReset_def split: if_splits)
next
  case (ChangeAddress v)
  with assms show ?thesis
    by (auto simp: settled_def fire_def Let_def split: if_splits)
next
  case (ChangeSqm v)
  with assms show ?thesis
    by (auto simp: settled_def fire_def Let_def split: if_splits)
next
  case (ChangeBudget v)
  with assms show ?thesis
    by (auto simp: settled_def fire_def Let_def split: if_splits)
next
  case (ChangeEfficiency v)
  with assms show ?thesis
    by (auto simp: settled_def fire_def Let_def split: if_splits)
next
  case (FileLoaded img)
  with assms show ?thesis
    by (auto simp: settled_def fire_def Let_def split: if_splits)
next
  case (RemoveImage i)
  with assms show ?thesis
    by (auto simp: settled_def fire_def Let_def split: if_splits)
qed

lemma settled_run:
  "settled x \<Longrightarrow> serial evs x \<Longrightarrow> run evs x = Some y \<Longrightarrow> settled y"
proof (induction evs arbitrary: x)
  case Nil
  then show ?case by simp
next
  case (Cons ev evs)
  from Cons.prems(3) obtain z where z: "fire ev x = Some z" "run evs z = Some y"
    by (auto split: option.splits)
  from Cons.prems(2) z(1) have s: "case ev of ClickGenerate \<Rightarrow> in_flight x = 0 | _ \<Rightarrow> True" "serial evs z"
    by simp_all
  from Cons.IH [OF settled_fire [OF Cons.prems(1) z(1) s(1)] s(2) z(2)] show ?case .
qed

lemma reset_after_serial_run:
  assumes "serial evs initial_session" and "run evs initial_session = Some x"
      and "fire ClickReset x = Some y"
  shows "app y = initial_App"
proof -
  from settled_run [OF settled_initial assms(1,2)] have "settled x" .
  with assms(3) show ?thesis
    by (cases "app x") (auto simp: settled_def fire_def Let_def handleReset_def initial_App_def split: if_splits)
qed

text \<open>
  What \<open>handleReset\<close> does in general: it restores the step, the images, the plan and
  the details, and leaves the loading flag and the error message as they were.
\<close>

lemma handleReset_fields:
  "step (handleReset s) = 1 \<and> images (handleReset s) = [] \<and> plan (handleReset s) = None
   \<and> details (handleReset s) = initial_details
   \<and> isLoading (handleReset s) = isLoading s \<and> error (handleReset s) = error s"
  by (simp add: handleReset_def)

lemma handleReset_initial:
  "handleReset s = initial_App \<longleftrightarrow> \<not> isLoading s \<and> error s = None"
  by (cases s) (auto simp: handleReset_def initial_App_def)

end
